theory Spec2Isabelle
  imports Complex_Main "HOL-Library.Word"
begin

section \<open>Land-cover classification and change detection (\<open>backend-python/lulc.py\<close>)\<close>

text \<open>
  The embedding follows \<open>lulc.py\<close> function by function. NumPy arrays carry their shape
  next to their cells, exceptions are values of the type \<open>error\<close>, and floating-point
  numbers are modelled by the type \<open>fl\<close>: a real number, or one of the three special
  values a division can produce. The operations on \<open>fl\<close> are those of binary64, the
  format of the masks, the percentages and the change record: the result of an operation
  on finite values is rounded to the nearest number with a significand of 53 bits, ties
  to even. The exponent is unbounded (no overflow, no subnormal numbers) and zero is the
  positive zero. The index functions work on float32 arrays; their arithmetic on the band
  values is kept exact.
\<close>

subsection \<open>Floating-point values\<close>

datatype fl = NaN | NInf | Fin real | PInf

datatype error = IndexError | ValueError | KeyError

text \<open>The quotient of two finite floats as NumPy forms it, before rounding: a zero divisor
  gives an infinity, or NaN when the dividend is zero too; nothing is raised.\<close>

definition rdiv :: "real \<Rightarrow> real \<Rightarrow> fl" where
  "rdiv n d = (if d \<noteq> 0 then Fin (n / d)
               else if n = 0 then NaN
               else if 0 < n then PInf else NInf)"

text \<open>Rounding a real number to binary64: the nearest multiple of the unit in the last
  place of its binade, the even one of two nearest.\<close>

definition round_half_even :: "real \<Rightarrow> int" where
  "round_half_even z =
     (let f = \<lfloor>z\<rfloor>; d = z - of_int f
      in if d < 1 / 2 then f else if 1 / 2 < d then f + 1 else if even f then f else f + 1)"

definition ulp :: "real \<Rightarrow> real" where
  "ulp x = 2 powi (\<lfloor>log 2 \<bar>x\<bar>\<rfloor> - 52)"

definition rnd :: "real \<Rightarrow> real" where
  "rnd x = (if x = 0 then 0 else sgn x * (of_int (round_half_even (\<bar>x\<bar> / ulp x)) * ulp x))"

fun fround :: "fl \<Rightarrow> fl" where
  "fround (Fin x) = Fin (rnd x)"
| "fround x = x"

fun fneg :: "fl \<Rightarrow> fl" where
  "fneg NaN = NaN"
| "fneg NInf = PInf"
| "fneg PInf = NInf"
| "fneg (Fin x) = Fin (- x)"

fun fabs :: "fl \<Rightarrow> fl" where
  "fabs NaN = NaN"
| "fabs NInf = PInf"
| "fabs PInf = PInf"
| "fabs (Fin x) = Fin \<bar>x\<bar>"

fun fadd :: "fl \<Rightarrow> fl \<Rightarrow> fl" where
  "fadd NaN _ = NaN"
| "fadd _ NaN = NaN"
| "fadd PInf NInf = NaN"
| "fadd NInf PInf = NaN"
| "fadd PInf _ = PInf"
| "fadd _ PInf = PInf"
| "fadd NInf _ = NInf"
| "fadd _ NInf = NInf"
| "fadd (Fin x) (Fin y) = Fin (rnd (x + y))"

fun fsub :: "fl \<Rightarrow> fl \<Rightarrow> fl" where
  "fsub NaN _ = NaN"
| "fsub _ NaN = NaN"
| "fsub PInf PInf = NaN"
| "fsub NInf NInf = NaN"
| "fsub PInf _ = PInf"
| "fsub _ NInf = PInf"
| "fsub NInf _ = NInf"
| "fsub _ PInf = NInf"
| "fsub (Fin x) (Fin y) = Fin (rnd (x - y))"

text \<open>The sign of an infinity multiplied or divided by a finite value.\<close>

definition signed_inf :: "bool \<Rightarrow> fl" where
  "signed_inf negative = (if negative then NInf else PInf)"

fun fmul :: "fl \<Rightarrow> fl \<Rightarrow> fl" where
  "fmul NaN _ = NaN"
| "fmul _ NaN = NaN"
| "fmul (Fin x) (Fin y) = Fin (rnd (x * y))"
| "fmul (Fin x) PInf = (if x = 0 then NaN else signed_inf (x < 0))"
| "fmul (Fin x) NInf = (if x = 0 then NaN else signed_inf (0 < x))"
| "fmul PInf (Fin y) = (if y = 0 then NaN else signed_inf (y < 0))"
| "fmul NInf (Fin y) = (if y = 0 then NaN else signed_inf (0 < y))"
| "fmul PInf PInf = PInf"
| "fmul NInf NInf = PInf"
| "fmul PInf NInf = NInf"
| "fmul NInf PInf = NInf"

fun fdiv :: "fl \<Rightarrow> fl \<Rightarrow> fl" where
  "fdiv NaN _ = NaN"
| "fdiv _ NaN = NaN"
| "fdiv (Fin x) (Fin y) = fround (rdiv x y)"
| "fdiv (Fin x) PInf = Fin 0"
| "fdiv (Fin x) NInf = Fin 0"
| "fdiv PInf (Fin y) = signed_inf (y < 0)"
| "fdiv NInf (Fin y) = signed_inf (0 \<le> y)"
| "fdiv PInf PInf = NaN"
| "fdiv PInf NInf = NaN"
| "fdiv NInf PInf = NaN"
| "fdiv NInf NInf = NaN"

text \<open>Comparisons: every comparison with NaN is false.\<close>

fun fless :: "fl \<Rightarrow> fl \<Rightarrow> bool" where
  "fless NaN _ = False"
| "fless _ NaN = False"
| "fless (Fin x) (Fin y) = (x < y)"
| "fless NInf NInf = False"
| "fless NInf _ = True"
| "fless _ NInf = False"
| "fless PInf _ = False"
| "fless _ PInf = True"

fun fle :: "fl \<Rightarrow> fl \<Rightarrow> bool" where
  "fle NaN _ = False"
| "fle _ NaN = False"
| "fle (Fin x) (Fin y) = (x \<le> y)"
| "fle NInf _ = True"
| "fle _ PInf = True"
| "fle PInf _ = False"
| "fle _ NInf = False"

text \<open>\<open>np.clip(x, lo, hi)\<close> with finite bounds: NaN stays NaN, infinities go to the bounds.\<close>

fun np_clip :: "real \<Rightarrow> real \<Rightarrow> fl \<Rightarrow> fl" where
  "np_clip lo hi NaN = NaN"
| "np_clip lo hi NInf = Fin lo"
| "np_clip lo hi PInf = Fin hi"
| "np_clip lo hi (Fin x) = Fin (min (max x lo) hi)"

subsection \<open>Arrays\<close>

text \<open>A two-dimensional array: \<open>shape\<close> is \<open>(rows, columns)\<close>, \<open>cells\<close> the rows.
  The pixel array of an image has a third axis, the bands of each pixel.\<close>

record 'a ndarray =
  shape :: "nat \<times> nat"
  cells :: "'a list list"

record image =
  ishape :: "nat \<times> nat \<times> nat"
  pixels :: "real list list list"

definition wf_array :: "'a ndarray \<Rightarrow> bool" where
  "wf_array a \<longleftrightarrow>
     length (cells a) = fst (shape a) \<and> list_all (\<lambda>r. length r = snd (shape a)) (cells a)"

definition wf_image :: "image \<Rightarrow> bool" where
  "wf_image img \<longleftrightarrow>
     (case ishape img of (h, w, b) \<Rightarrow>
        length (pixels img) = h \<and>
        list_all (\<lambda>r. length r = w \<and> list_all (\<lambda>p. length p = b) r) (pixels img))"

definition cell :: "'a ndarray \<Rightarrow> nat \<Rightarrow> nat \<Rightarrow> 'a" where
  "cell a i j = cells a ! i ! j"

definition asize :: "'a ndarray \<Rightarrow> nat" where
  "asize a = fst (shape a) * snd (shape a)"

definition map_array :: "('a \<Rightarrow> 'b) \<Rightarrow> 'a ndarray \<Rightarrow> 'b ndarray" where
  "map_array f a = \<lparr>shape = shape a, cells = map (map f) (cells a)\<rparr>"

text \<open>An elementwise binary operation on two arrays of one shape (the callers below
  check the shapes, or build both operands from one array).\<close>

definition zip_array :: "('a \<Rightarrow> 'b \<Rightarrow> 'c) \<Rightarrow> 'a ndarray \<Rightarrow> 'b ndarray \<Rightarrow> 'c ndarray" where
  "zip_array f a b = \<lparr>shape = shape a, cells = map2 (map2 f) (cells a) (cells b)\<rparr>"

definition np_zeros :: "nat \<times> nat \<Rightarrow> fl ndarray" where
  "np_zeros s = \<lparr>shape = s, cells = replicate (fst s) (replicate (snd s) (Fin 0))\<rparr>"

definition np_sum :: "real ndarray \<Rightarrow> real" where
  "np_sum a = sum_list (map sum_list (cells a))"

text \<open>\<open>a[mask] = v\<close>: the cells where the boolean mask holds are overwritten.\<close>

definition mask_assign :: "'a ndarray \<Rightarrow> bool ndarray \<Rightarrow> 'a \<Rightarrow> 'a ndarray" where
  "mask_assign a m v = zip_array (\<lambda>x c. if c then v else x) a m"

text \<open>\<open>image[:, :, k]\<close>: IndexError when the image has no band \<open>k\<close>.\<close>

definition band :: "image \<Rightarrow> nat \<Rightarrow> error + real ndarray" where
  "band img k =
     (case ishape img of (h, w, b) \<Rightarrow>
        if k < b then Inr \<lparr>shape = (h, w), cells = map (map (\<lambda>p. p ! k)) (pixels img)\<rparr>
        else Inl IndexError)"

subsection \<open>Spectral indices\<close>

definition eps :: real where
  "eps = 1 / 100000000"

text \<open>Elementwise arithmetic on band arrays, and \<open>np.clip\<close> on a whole array.\<close>

definition arr_sub :: "real ndarray \<Rightarrow> real ndarray \<Rightarrow> real ndarray" where
  "arr_sub = zip_array (\<lambda>x y. x - y)"

definition arr_add :: "real ndarray \<Rightarrow> real ndarray \<Rightarrow> real ndarray" where
  "arr_add = zip_array (\<lambda>x y. x + y)"

definition arr_add_scalar :: "real ndarray \<Rightarrow> real \<Rightarrow> real ndarray" where
  "arr_add_scalar a c = map_array (\<lambda>x. x + c) a"

definition arr_div :: "real ndarray \<Rightarrow> real ndarray \<Rightarrow> fl ndarray" where
  "arr_div = zip_array rdiv"

definition clip_array :: "fl ndarray \<Rightarrow> real \<Rightarrow> real \<Rightarrow> fl ndarray" where
  "clip_array a lo hi = map_array (np_clip lo hi) a"

definition calculate_ndvi :: "image \<Rightarrow> error + fl ndarray" where
  "calculate_ndvi img =
     (case ishape img of (h, w, b) \<Rightarrow>
        if b < 4 then Inr (np_zeros (h, w))
        else (case band img 3 of Inl e \<Rightarrow> Inl e | Inr nir \<Rightarrow>
              (case band img 2 of Inl e \<Rightarrow> Inl e | Inr red \<Rightarrow>
                 (let ndvi = arr_div (arr_sub nir red) (arr_add_scalar (arr_add nir red) eps)
                  in Inr (clip_array ndvi (- 1) 1)))))"

definition calculate_ndwi :: "image \<Rightarrow> error + fl ndarray" where
  "calculate_ndwi img =
     (case ishape img of (h, w, b) \<Rightarrow>
        if b < 4 then Inr (np_zeros (h, w))
        else (case band img 1 of Inl e \<Rightarrow> Inl e | Inr green \<Rightarrow>
              (case band img 3 of Inl e \<Rightarrow> Inl e | Inr nir \<Rightarrow>
                 (let ndwi = arr_div (arr_sub green nir) (arr_add_scalar (arr_add green nir) eps)
                  in Inr (clip_array ndwi (- 1) 1)))))"

definition calculate_ndbi :: "image \<Rightarrow> error + fl ndarray" where
  "calculate_ndbi img =
     (case ishape img of (h, w, b) \<Rightarrow>
        if b < 5 then Inr (np_zeros (h, w))
        else (case band img 4 of Inl e \<Rightarrow> Inl e | Inr swir \<Rightarrow>
              (case band img 3 of Inl e \<Rightarrow> Inl e | Inr nir \<Rightarrow>
                 (let ndbi = arr_div (arr_sub swir nir) (arr_add_scalar (arr_add swir nir) eps)
                  in Inr (clip_array ndbi (- 1) 1)))))"

subsection \<open>Land-cover classification\<close>

text \<open>Comparisons of an array with a scalar, \<open>&\<close> on boolean arrays of one shape, and
  \<open>astype(float)\<close>, which turns \<open>True\<close> into 1.0 and \<open>False\<close> into 0.0.\<close>

definition arr_gt :: "fl ndarray \<Rightarrow> real \<Rightarrow> bool ndarray" where
  "arr_gt a c = map_array (\<lambda>x. fless (Fin c) x) a"

definition arr_ge :: "fl ndarray \<Rightarrow> real \<Rightarrow> bool ndarray" where
  "arr_ge a c = map_array (\<lambda>x. fle (Fin c) x) a"

definition arr_le :: "fl ndarray \<Rightarrow> real \<Rightarrow> bool ndarray" where
  "arr_le a c = map_array (\<lambda>x. fle x (Fin c)) a"

definition arr_and :: "bool ndarray \<Rightarrow> bool ndarray \<Rightarrow> bool ndarray" where
  "arr_and = zip_array (\<lambda>p q. p \<and> q)"

definition astype_float :: "bool ndarray \<Rightarrow> real ndarray" where
  "astype_float = map_array (\<lambda>p. if p then 1 else 0)"

definition mask_gt :: "real ndarray \<Rightarrow> real \<Rightarrow> bool ndarray" where
  "mask_gt a c = map_array (\<lambda>x. c < x) a"

text \<open>The five masks are returned in the order
  \<open>(built_up, water, forest, vegetation, barren)\<close>.\<close>

type_synonym masks =
  "real ndarray \<times> real ndarray \<times> real ndarray \<times> real ndarray \<times> real ndarray"

text \<open>A boolean index must have the shape of the array it indexes, otherwise NumPy raises
  IndexError: the first masked assignment needs \<open>ndvi\<close> and \<open>ndbi\<close> of one shape, the
  first assignment under \<open>water\<close> needs \<open>ndvi\<close> and \<open>ndwi\<close> of one shape.\<close>

definition classify_land_cover ::
    "fl ndarray \<Rightarrow> fl ndarray \<Rightarrow> fl ndarray \<Rightarrow> error + masks" where
  "classify_land_cover ndvi ndwi ndbi =
     (let built_up = astype_float (arr_gt ndbi 0);
          forest = astype_float (arr_gt ndvi 0.5);
          vegetation = astype_float (arr_and (arr_gt ndvi 0.1) (arr_le ndvi 0.5));
          water = astype_float (arr_gt ndwi 0);
          barren = astype_float (arr_and (arr_ge ndvi (- 0.1)) (arr_le ndvi 0.1))
      in if shape vegetation \<noteq> shape built_up then Inl IndexError
         else
          (let vegetation = mask_assign vegetation (mask_gt built_up 0) 0;
               forest = mask_assign forest (mask_gt built_up 0) 0;
               barren = mask_assign barren (mask_gt built_up 0) 0
           in if shape forest \<noteq> shape water then Inl IndexError
              else
               (let forest = mask_assign forest (mask_gt water 0) 0;
                    vegetation = mask_assign vegetation (mask_gt water 0) 0;
                    barren = mask_assign barren (mask_gt water 0) 0;
                    built_up = mask_assign built_up (mask_gt water 0) 0
                in Inr (built_up, water, forest, vegetation, barren))))"

subsection \<open>Percentages\<close>

text \<open>A Python dict, in insertion order.\<close>

type_synonym dict = "(string \<times> fl) list"

definition calculate_land_cover_percentages :: "masks \<Rightarrow> dict" where
  "calculate_land_cover_percentages m =
     (case m of (built_up, water, forest, vegetation, barren) \<Rightarrow>
        (let total_pixels = Fin (real (asize built_up))
         in [(''Built-up Area'', fmul (fdiv (Fin (np_sum built_up)) total_pixels) (Fin 100)),
             (''Water'', fmul (fdiv (Fin (np_sum water)) total_pixels) (Fin 100)),
             (''Forest'', fmul (fdiv (Fin (np_sum forest)) total_pixels) (Fin 100)),
             (''Vegetation'', fmul (fdiv (Fin (np_sum vegetation)) total_pixels) (Fin 100)),
             (''Barren Land'', fmul (fdiv (Fin (np_sum barren)) total_pixels) (Fin 100))]))"

subsection \<open>Change detection\<close>

definition bind_error :: "error + 'a \<Rightarrow> ('a \<Rightarrow> error + 'b) \<Rightarrow> error + 'b" where
  "bind_error r f = (case r of Inl e \<Rightarrow> Inl e | Inr x \<Rightarrow> f x)"

text \<open>\<open>np.abs(b - a) > t\<close> and \<open>p | q\<close>. The pipeline passes arrays of one shape. For two
  different shapes NumPy broadcasts when it can and raises ValueError otherwise; the
  model covers equal shapes and gives ValueError for every other pair.\<close>

definition abs_diff_gt :: "real ndarray \<Rightarrow> real ndarray \<Rightarrow> real \<Rightarrow> error + bool ndarray" where
  "abs_diff_gt b a t =
     (if shape b = shape a then Inr (zip_array (\<lambda>y x. t < \<bar>y - x\<bar>) b a)
      else Inl ValueError)"

definition arr_or :: "bool ndarray \<Rightarrow> bool ndarray \<Rightarrow> error + bool ndarray" where
  "arr_or p q =
     (if shape p = shape q then Inr (zip_array (\<lambda>x y. x \<or> y) p q) else Inl ValueError)"

definition change_threshold :: real where
  "change_threshold = 0.1"

text \<open>The boolean array \<open>total_change\<close> of \<open>create_change_map\<close>.\<close>

definition total_change :: "masks \<Rightarrow> masks \<Rightarrow> error + bool ndarray" where
  "total_change masks1 masks2 =
     (case masks1 of (built1, water1, forest1, veg1, bar1) \<Rightarrow>
      case masks2 of (built2, water2, forest2, veg2, bar2) \<Rightarrow>
        bind_error (abs_diff_gt built2 built1 change_threshold) (\<lambda>built_up_change.
        bind_error (abs_diff_gt water2 water1 change_threshold) (\<lambda>water_change.
        bind_error (abs_diff_gt forest2 forest1 change_threshold) (\<lambda>forest_change.
        bind_error (abs_diff_gt veg2 veg1 change_threshold) (\<lambda>vegetation_change.
        bind_error (abs_diff_gt bar2 bar1 change_threshold) (\<lambda>barren_change.
        bind_error (arr_or built_up_change water_change) (\<lambda>c1.
        bind_error (arr_or c1 forest_change) (\<lambda>c2.
        bind_error (arr_or c2 vegetation_change) (\<lambda>c3.
        arr_or c3 barren_change)))))))))"

definition zeros_uint8 :: "nat \<times> nat \<Rightarrow> 8 word ndarray" where
  "zeros_uint8 s = \<lparr>shape = s, cells = replicate (fst s) (replicate (snd s) 0)\<rparr>"

text \<open>\<open>Image.fromarray(change_map).save(output_path)\<close>: the imaging library raises
  ValueError for an image without pixels. The file it writes otherwise is left out.\<close>

definition save_image :: "8 word ndarray \<Rightarrow> error + unit" where
  "save_image a = (if asize a = 0 then Inl ValueError else Inr ())"

text \<open>The returned image is white (255) where \<open>total_change\<close> holds and black (0)
  elsewhere.\<close>

definition create_change_map :: "masks \<Rightarrow> masks \<Rightarrow> error + 8 word ndarray" where
  "create_change_map masks1 masks2 =
     bind_error (total_change masks1 masks2) (\<lambda>tc.
       (let change_map = mask_assign (zeros_uint8 (shape tc)) tc 255
        in bind_error (save_image change_map) (\<lambda>_. Inr change_map)))"

subsection \<open>The pipeline\<close>

definition dict_get :: "dict \<Rightarrow> string \<Rightarrow> error + fl" where
  "dict_get d k = (case map_of d k of None \<Rightarrow> Inl KeyError | Some v \<Rightarrow> Inr v)"

text \<open>\<open>{k: perc2[k] - perc1[k] for k in perc1}\<close>\<close>

fun change_stats :: "dict \<Rightarrow> dict \<Rightarrow> error + dict" where
  "change_stats [] perc2 = Inr []"
| "change_stats ((k, v1) # rest) perc2 =
     bind_error (dict_get perc2 k) (\<lambda>v2.
     bind_error (change_stats rest perc2) (\<lambda>cs.
       Inr ((k, fsub v2 v1) # cs)))"

text \<open>\<open>sum(abs(v) for v in change_stats.values()) / 2\<close>; \<open>sum\<close> starts from 0 and adds
  from the left.\<close>

definition total_change_area :: "dict \<Rightarrow> fl" where
  "total_change_area cs = fdiv (foldl fadd (Fin 0) (map (\<lambda>(k, v). fabs v) cs)) (Fin 2)"

record analysis =
  res_image1 :: dict
  res_image2 :: dict
  res_change :: dict
  res_total_change_area :: fl

text \<open>Steps 3 to 7 of \<open>run_lulc_change_analysis\<close>, on the two decoded pixel arrays.
  Reading the rasters, the previews, the chart and the CSV export are left out.\<close>

definition run_lulc_change_analysis :: "image \<Rightarrow> image \<Rightarrow> error + analysis" where
  "run_lulc_change_analysis image1 image2 =
     bind_error (calculate_ndvi image1) (\<lambda>ndvi1.
     bind_error (calculate_ndvi image2) (\<lambda>ndvi2.
     bind_error (calculate_ndwi image1) (\<lambda>ndwi1.
     bind_error (calculate_ndwi image2) (\<lambda>ndwi2.
     bind_error (calculate_ndbi image1) (\<lambda>ndbi1.
     bind_error (calculate_ndbi image2) (\<lambda>ndbi2.
     bind_error (classify_land_cover ndvi1 ndwi1 ndbi1) (\<lambda>masks1.
     bind_error (classify_land_cover ndvi2 ndwi2 ndbi2) (\<lambda>masks2.
     bind_error (create_change_map masks1 masks2) (\<lambda>_.
       (let perc1 = calculate_land_cover_percentages masks1;
            perc2 = calculate_land_cover_percentages masks2
        in bind_error (change_stats perc1 perc2) (\<lambda>cs.
             Inr \<lparr>res_image1 = perc1, res_image2 = perc2, res_change = cs,
                  res_total_change_area = total_change_area cs\<rparr>)))))))))))"

subsection \<open>Reading the arrays pixel by pixel\<close>

text \<open>The statements of \<open>classify_land_cover\<close> at one pixel, in the order of the source:
  the five primary predicates, the three assignments under \<open>built_up > 0\<close>, then the four
  under \<open>water > 0\<close>.\<close>

definition pixel_masks :: "fl \<Rightarrow> fl \<Rightarrow> fl \<Rightarrow> real \<times> real \<times> real \<times> real \<times> real" where
  "pixel_masks ndvi ndwi ndbi =
     (let built_up = (if fless (Fin 0) ndbi then 1 else 0);
          forest = (if fless (Fin 0.5) ndvi then 1 else 0);
          vegetation = (if fless (Fin 0.1) ndvi \<and> fle ndvi (Fin 0.5) then 1 else 0);
          water = (if fless (Fin 0) ndwi then 1 else 0);
          barren = (if fle (Fin (- 0.1)) ndvi \<and> fle ndvi (Fin 0.1) then 1 else 0);
          vegetation = (if 0 < built_up then 0 else vegetation);
          forest = (if 0 < built_up then 0 else forest);
          barren = (if 0 < built_up then 0 else barren);
          forest = (if 0 < water then 0 else forest);
          vegetation = (if 0 < water then 0 else vegetation);
          barren = (if 0 < water then 0 else barren);
          built_up = (if 0 < water then 0 else built_up)
      in (built_up, water, forest, vegetation, barren))"

definition cells_of :: "masks \<Rightarrow> nat \<Rightarrow> nat \<Rightarrow> real \<times> real \<times> real \<times> real \<times> real" where
  "cells_of m i j =
     (case m of (built_up, water, forest, vegetation, barren) \<Rightarrow>
        (cell built_up i j, cell water i j, cell forest i j, cell vegetation i j,
         cell barren i j))"

definition mask_list :: "masks \<Rightarrow> real ndarray list" where
  "mask_list m =
     (case m of (built_up, water, forest, vegetation, barren) \<Rightarrow>
        [built_up, water, forest, vegetation, barren])"

definition px :: "image \<Rightarrow> nat \<Rightarrow> nat \<Rightarrow> nat \<Rightarrow> real" where
  "px img i j k = pixels img ! i ! j ! k"

definition in_range :: "real \<Rightarrow> real \<Rightarrow> fl \<Rightarrow> bool" where
  "in_range lo hi x = (case x of Fin r \<Rightarrow> lo \<le> r \<and> r \<le> hi | _ \<Rightarrow> False)"

definition binary_mask :: "real ndarray \<Rightarrow> bool" where
  "binary_mask a = list_all (list_all (\<lambda>x. x = 0 \<or> x = 1)) (cells a)"

definition count_ones :: "real ndarray \<Rightarrow> nat" where
  "count_ones a = sum_list (map (\<lambda>r. length (filter (\<lambda>x. x = 1) r)) (cells a))"

definition class_names :: "string list" where
  "class_names = [''Built-up Area'', ''Water'', ''Forest'', ''Vegetation'', ''Barren Land'']"

text \<open>An array of the given shape with one value in every cell.\<close>

definition const_array :: "nat \<times> nat \<Rightarrow> 'a \<Rightarrow> 'a ndarray" where
  "const_array s v = \<lparr>shape = s, cells = replicate (fst s) (replicate (snd s) v)\<rparr>"

text \<open>A record with every value negated.\<close>

definition negated :: "dict \<Rightarrow> dict" where
  "negated d = map (\<lambda>(k, v). (k, fneg v)) d"


subsection \<open>The formulas of the specification\<close>

text \<open>The index formula of the specification at one pixel:
  \<open>clip((x - y) / (x + y + \<epsilon>), -1, 1)\<close>.\<close>

definition spec_index :: "real \<Rightarrow> real \<Rightarrow> fl" where
  "spec_index x y = np_clip (- 1) 1 (rdiv (x - y) (x + y + eps))"

text \<open>The percentage of the specification: the number of pixels whose value is 1.0,
  divided by the number of pixels, times 100, as a float.\<close>

definition spec_percentage :: "real ndarray \<Rightarrow> fl" where
  "spec_percentage a =
     fmul (fdiv (Fin (real (count_ones a))) (Fin (real (asize a)))) (Fin 100)"

text \<open>The change record of the specification: for a class, the percentage of image 2
  minus the percentage of image 1; and half the sum of the absolute deltas.\<close>

definition spec_delta :: "dict \<Rightarrow> dict \<Rightarrow> string \<Rightarrow> fl option" where
  "spec_delta perc1 perc2 k =
     (case (map_of perc1 k, map_of perc2 k) of
        (Some v1, Some v2) \<Rightarrow> Some (fsub v2 v1)
      | _ \<Rightarrow> None)"

definition spec_total_change_area :: "fl list \<Rightarrow> fl" where
  "spec_total_change_area deltas = fdiv (foldl fadd (Fin 0) (map fabs deltas)) (Fin 2)"

subsection \<open>Example inputs\<close>

definition ex_ndvi :: "fl ndarray" where
  "ex_ndvi = \<lparr>shape = (1, 3), cells = [[Fin 0.6, Fin 0.3, NaN]]\<rparr>"

definition ex_ndwi :: "fl ndarray" where
  "ex_ndwi = \<lparr>shape = (1, 3), cells = [[Fin 0, Fin 0.3, Fin (- 1)]]\<rparr>"

definition ex_ndbi :: "fl ndarray" where
  "ex_ndbi = \<lparr>shape = (1, 3), cells = [[Fin 0.2, Fin 0.2, Fin 0]]\<rparr>"

definition ex_masks1 :: masks where
  "ex_masks1 =
     (\<lparr>shape = (1, 3), cells = [[1, 0, 0]]\<rparr>, \<lparr>shape = (1, 3), cells = [[0, 1, 0]]\<rparr>,
      \<lparr>shape = (1, 3), cells = [[0, 0, 0]]\<rparr>, \<lparr>shape = (1, 3), cells = [[0, 0, 0]]\<rparr>,
      \<lparr>shape = (1, 3), cells = [[0, 0, 0]]\<rparr>)"

definition ex_masks2 :: masks where
  "ex_masks2 =
     (\<lparr>shape = (1, 3), cells = [[0, 0, 0]]\<rparr>, \<lparr>shape = (1, 3), cells = [[0, 1, 0]]\<rparr>,
      \<lparr>shape = (1, 3), cells = [[1, 0, 0]]\<rparr>, \<lparr>shape = (1, 3), cells = [[0, 0, 0]]\<rparr>,
      \<lparr>shape = (1, 3), cells = [[0, 0, 1]]\<rparr>)"

text \<open>Nine pixels: one forest, seven vegetation, one barren.\<close>

definition ex9_ndvi :: "fl ndarray" where
  "ex9_ndvi =
     \<lparr>shape = (3, 3),
      cells = [[Fin 0.6, Fin 0.3, Fin 0.3], [Fin 0.3, Fin 0.3, Fin 0.3],
               [Fin 0.3, Fin 0.3, Fin 0]]\<rparr>"

definition ex9_masks :: masks where
  "ex9_masks =
     (\<lparr>shape = (3, 3), cells = [[0, 0, 0], [0, 0, 0], [0, 0, 0]]\<rparr>,
      \<lparr>shape = (3, 3), cells = [[0, 0, 0], [0, 0, 0], [0, 0, 0]]\<rparr>,
      \<lparr>shape = (3, 3), cells = [[1, 0, 0], [0, 0, 0], [0, 0, 0]]\<rparr>,
      \<lparr>shape = (3, 3), cells = [[0, 1, 1], [1, 1, 1], [1, 1, 0]]\<rparr>,
      \<lparr>shape = (3, 3), cells = [[0, 0, 0], [0, 0, 0], [0, 0, 1]]\<rparr>)"

definition ex_empty :: "real ndarray" where
  "ex_empty = \<lparr>shape = (0, 0), cells = []\<rparr>"

definition ex_image3 :: image where
  "ex_image3 = \<lparr>ishape = (1, 2, 3), pixels = [[[0.1, 0.2, 0.3], [0.3, 0.2, 0.1]]]\<rparr>"

definition ex_image5 :: image where
  "ex_image5 =
     \<lparr>ishape = (1, 2, 5),
      pixels = [[[0.1, 0.2, 0.3, 0.5, 0.2], [0.1, 0.4, 0.3, 0.2, 0.6]]]\<rparr>"


definition ex_image_empty :: image where
  "ex_image_empty = \<lparr>ishape = (0, 0, 3), pixels = []\<rparr>"

definition ex_perc1 :: dict where
  "ex_perc1 =
     [(''Built-up Area'', Fin 0), (''Water'', Fin 50), (''Forest'', Fin 0),
      (''Vegetation'', Fin 50), (''Barren Land'', Fin 0)]"

definition ex_perc2 :: dict where
  "ex_perc2 =
     [(''Built-up Area'', Fin 0), (''Water'', Fin 0), (''Forest'', Fin 0),
      (''Vegetation'', Fin 0), (''Barren Land'', Fin 100)]"

section \<open>Properties\<close>

subsection \<open>Rounding\<close>

lemma rnd_zero [simp]: "rnd 0 = 0"
  by (simp add: rnd_def)

lemma rnd_minus: "rnd (- x) = - rnd x"
  by (simp add: rnd_def ulp_def sgn_minus)

lemma round_half_even_bounds:
  "\<lfloor>z\<rfloor> \<le> round_half_even z" "round_half_even z \<le> \<lceil>z\<rceil>"
proof -
  show "\<lfloor>z\<rfloor> \<le> round_half_even z"
    by (simp add: round_half_even_def Let_def)
  have "\<lfloor>z\<rfloor> + 1 \<le> \<lceil>z\<rceil>" if "z \<noteq> of_int \<lfloor>z\<rfloor>"
    using that by (metis ceiling_altdef le_less order_refl zle_add1_eq_le floor_le_ceiling)
  then show "round_half_even z \<le> \<lceil>z\<rceil>"
    by (auto simp add: round_half_even_def Let_def floor_le_ceiling)
qed

lemma round_half_even_le: "z \<le> of_int n \<Longrightarrow> round_half_even z \<le> n"
  using round_half_even_bounds(2) [of z] by (meson ceiling_le order_trans)

lemma round_half_even_ge: "of_int n \<le> z \<Longrightarrow> n \<le> round_half_even z"
  using round_half_even_bounds(1) [of z] by (meson le_floor_iff order_trans)

lemma round_half_even_of_int [simp]: "round_half_even (of_int n) = n"
  by (simp add: round_half_even_def)

lemma floor_log2:
  assumes "2 powi k \<le> x" and "x < 2 powi (k + 1)"
  shows "\<lfloor>log 2 x\<rfloor> = k"
proof -
  have "0 < x"
    using assms(1) zero_less_power_int [of "2::real" k] by linarith
  moreover have "(2::real) powr real_of_int k = 2 powi k"
    by (simp add: powr_real_of_int')
  moreover have "(2::real) powr (real_of_int k + 1) = 2 powi (k + 1)"
    using powr_real_of_int' [of "2::real" "k + 1"] by simp
  ultimately show ?thesis
    using assms floor_log_eq_powr_iff [of x 2 k] by simp
qed

lemma rnd_eval:
  assumes "2 powi k \<le> x" and "x < 2 powi (k + 1)"
  shows "rnd x = of_int (round_half_even (x / 2 powi (k - 52))) * 2 powi (k - 52)"
proof -
  have "0 < x"
    using assms(1) zero_less_power_int [of "2::real" k] by linarith
  then show ?thesis
    using floor_log2 [OF assms] by (simp add: rnd_def ulp_def)
qed

lemma exponent_exists:
  fixes x :: real
  assumes "0 < x"
  shows "\<exists>k. 2 powi k \<le> x \<and> x < 2 powi (k + 1)"
proof -
  let ?k = "\<lfloor>log 2 x\<rfloor>"
  have "(2::real) powr real_of_int ?k = 2 powi ?k"
    by (simp add: powr_real_of_int')
  moreover have "(2::real) powr (real_of_int ?k + 1) = 2 powi (?k + 1)"
    using powr_real_of_int' [of "2::real" "?k + 1"] by simp
  ultimately have "2 powi ?k \<le> x \<and> x < 2 powi (?k + 1)"
    using floor_log_eq_powr_iff [of x 2 ?k] assms by simp
  then show ?thesis ..
qed

lemma rnd_binade:
  assumes "2 powi k \<le> x" and "x < 2 powi (k + 1)"
  shows "2 powi k \<le> rnd x" and "rnd x \<le> 2 powi (k + 1)"
proof -
  let ?u = "(2::real) powi (k - 52)"
  have u: "0 < ?u"
    by simp
  have lo: "2 powi k = of_int (2 ^ 52) * ?u" and hi: "2 powi (k + 1) = of_int (2 ^ 53) * ?u"
    by (simp_all add: power_int_diff power_int_add)
  have "of_int (2 ^ 52) \<le> x / ?u"
    using assms(1) u unfolding lo by (simp add: le_divide_eq)
  then have "2 ^ 52 \<le> round_half_even (x / ?u)"
    by (rule round_half_even_ge)
  then have "of_int (2 ^ 52) * ?u \<le> of_int (round_half_even (x / ?u)) * ?u"
    using u by (simp only: mult_le_cancel_right_pos of_int_le_iff)
  then show "2 powi k \<le> rnd x"
    unfolding rnd_eval [OF assms] lo .
  have "x / ?u \<le> of_int (2 ^ 53)"
    using assms(2) u unfolding hi by (simp add: divide_le_eq)
  then have "round_half_even (x / ?u) \<le> 2 ^ 53"
    by (rule round_half_even_le)
  then have "of_int (round_half_even (x / ?u)) * ?u \<le> of_int (2 ^ 53) * ?u"
    using u by (simp only: mult_le_cancel_right_pos of_int_le_iff)
  then show "rnd x \<le> 2 powi (k + 1)"
    unfolding rnd_eval [OF assms] hi .
qed

lemma rnd_nonneg: "0 \<le> x \<Longrightarrow> 0 \<le> rnd x"
proof (cases "x = 0")
  case False
  assume "0 \<le> x"
  then obtain k where k: "2 powi k \<le> x" "x < 2 powi (k + 1)"
    using False exponent_exists [of x] by auto
  have "0 < (2::real) powi k"
    by simp
  then show ?thesis
    using rnd_binade(1) [OF k] by linarith
qed simp

lemma rnd_consts [simp]:
  "rnd 1 = 1" "rnd (1 / 2) = 1 / 2" "rnd 50 = 50" "rnd 100 = 100" "rnd 200 = 200"
proof -
  show "rnd 1 = 1"
    by (subst rnd_eval [where k = 0]) (simp_all add: power_int_minus round_half_even_def)
  show "rnd (1 / 2) = 1 / 2"
    by (subst rnd_eval [where k = "- 1"]) (simp_all add: power_int_minus round_half_even_def)
  show "rnd 50 = 50"
    by (subst rnd_eval [where k = 5]) (simp_all add: power_int_minus round_half_even_def)
  show "rnd 100 = 100"
    by (subst rnd_eval [where k = 6]) (simp_all add: power_int_minus round_half_even_def)
  show "rnd 200 = 200"
    by (subst rnd_eval [where k = 7]) (simp_all add: power_int_minus round_half_even_def)
qed

lemma rnd_le_1:
  assumes "0 \<le> x" and "x \<le> 1"
  shows "rnd x \<le> 1"
proof -
  consider "x = 0" | "x = 1" | "0 < x" "x < 1"
    using assms by linarith
  then show ?thesis
  proof cases
    case 3
    obtain k where k: "2 powi k \<le> x" "x < 2 powi (k + 1)"
      using exponent_exists [OF 3(1)] by blast
    have "(2::real) powi k < 2 powi 0"
      using k(1) 3(2) by simp
    then have "k < 0"
      by (metis power_int_increasing not_le one_le_numeral order.asym)
    then have "(2::real) powi (k + 1) \<le> 2 powi 0"
      by (intro power_int_increasing) simp_all
    then show ?thesis
      using rnd_binade(2) [OF k] by simp
  qed simp_all
qed

lemma rnd_le_100:
  assumes "0 \<le> y" and "y \<le> 100"
  shows "rnd y \<le> 100"
proof (cases "y < 64")
  case True
  show ?thesis
  proof (cases "y = 0")
    case False
    then obtain k where k: "2 powi k \<le> y" "y < 2 powi (k + 1)"
      using exponent_exists [of y] assms(1) by auto
    have "(2::real) powi k < 2 powi 6"
      using k(1) True by simp
    then have "k < 6"
      by (metis power_int_increasing not_le one_le_numeral order.asym)
    then have "(2::real) powi (k + 1) \<le> 2 powi 6"
      by (intro power_int_increasing) simp_all
    then show ?thesis
      using rnd_binade(2) [OF k] by simp
  qed simp
next
  case False
  then have k: "2 powi 6 \<le> y" "y < 2 powi (6 + 1)"
    using assms(2) by simp_all
  have "y / 2 powi (6 - 52) \<le> of_int (100 * 2 ^ 46)"
    using assms(2) by (simp add: power_int_minus field_simps)
  then have "round_half_even (y / 2 powi (6 - 52)) \<le> 100 * 2 ^ 46"
    by (rule round_half_even_le)
  then have "of_int (round_half_even (y / 2 powi (6 - 52))) * (2::real) powi (6 - 52)
      \<le> of_int (100 * 2 ^ 46) * 2 powi (6 - 52)"
    by (simp only: mult_le_cancel_right_pos zero_less_power_int zero_less_numeral of_int_le_iff)
  then show ?thesis
    unfolding rnd_eval [OF k] by (simp add: power_int_minus)
qed

subsection \<open>Arrays, cell by cell\<close>

lemma shape_map_array [simp]: "shape (map_array f a) = shape a"
  by (simp add: map_array_def)

lemma shape_zip_array [simp]: "shape (zip_array f a b) = shape a"
  by (simp add: zip_array_def)

lemma wf_map_array [simp]: "wf_array (map_array f a) = wf_array a"
  by (simp add: wf_array_def map_array_def list_all_iff)

lemma wf_zip_array:
  "wf_array a \<Longrightarrow> wf_array b \<Longrightarrow> shape b = shape a \<Longrightarrow> wf_array (zip_array f a b)"
  by (auto simp add: wf_array_def zip_array_def list_all_length)

lemma cell_map_array:
  "wf_array a \<Longrightarrow> i < fst (shape a) \<Longrightarrow> j < snd (shape a) \<Longrightarrow>
   cell (map_array f a) i j = f (cell a i j)"
  by (simp add: cell_def map_array_def wf_array_def list_all_length)

lemma cell_zip_array:
  "wf_array a \<Longrightarrow> wf_array b \<Longrightarrow> shape b = shape a \<Longrightarrow>
   i < fst (shape a) \<Longrightarrow> j < snd (shape a) \<Longrightarrow>
   cell (zip_array f a b) i j = f (cell a i j) (cell b i j)"
  by (simp add: cell_def zip_array_def wf_array_def list_all_length)

lemmas array_simps =
  arr_gt_def arr_ge_def arr_le_def arr_and_def astype_float_def mask_gt_def mask_assign_def
  wf_zip_array cell_map_array cell_zip_array

subsection \<open>Classification\<close>

lemma classify_land_cover_total:
  assumes "shape ndwi = shape ndvi" and "shape ndbi = shape ndvi"
  shows "\<exists>m. classify_land_cover ndvi ndwi ndbi = Inr m"
  using assms by (simp add: classify_land_cover_def Let_def array_simps)

lemma classify_land_cover_shapes:
  assumes "classify_land_cover ndvi ndwi ndbi = Inr m"
  shows "shape ndwi = shape ndvi \<and> shape ndbi = shape ndvi"
  using assms
  by (auto simp add: classify_land_cover_def Let_def array_simps split: if_splits)

lemma classify_land_cover_wf:
  assumes "wf_array ndvi" and "wf_array ndwi" and "wf_array ndbi"
    and "shape ndwi = shape ndvi" and "shape ndbi = shape ndvi"
    and "classify_land_cover ndvi ndwi ndbi = Inr m"
  shows "list_all (\<lambda>a. wf_array a \<and> shape a = shape ndvi) (mask_list m)"
  using assms
  by (auto simp add: classify_land_cover_def Let_def array_simps mask_list_def)

lemma classify_land_cover_cells:
  assumes "wf_array ndvi" and "wf_array ndwi" and "wf_array ndbi"
    and "shape ndwi = shape ndvi" and "shape ndbi = shape ndvi"
    and "classify_land_cover ndvi ndwi ndbi = Inr m"
    and "i < fst (shape ndvi)" and "j < snd (shape ndvi)"
  shows "cells_of m i j = pixel_masks (cell ndvi i j) (cell ndwi i j) (cell ndbi i j)"
  using assms
  by (auto simp add: classify_land_cover_def Let_def array_simps cells_of_def pixel_masks_def)

lemma pixel_masks_exclusive:
  assumes "pixel_masks v w b = (bu, wa, fo, ve, ba)"
  shows "length (filter (\<lambda>x. x = 1) [bu, wa, fo, ve, ba]) \<le> 1"
    and "set [bu, wa, fo, ve, ba] \<subseteq> {0, 1}"
  using assms
  by (cases v; auto simp add: pixel_masks_def Let_def split: if_splits)+

text \<open>
  C1. For index arrays of one shape, \<open>classify_land_cover\<close> returns five masks, and at
  every pixel at most one of them is 1.0; every mask value is 0.0 or 1.0, and a pixel may
  be in no class at all.
\<close>

theorem classify_land_cover_mutually_exclusive:
  assumes "wf_array ndvi" and "wf_array ndwi" and "wf_array ndbi"
    and "shape ndwi = shape ndvi" and "shape ndbi = shape ndvi"
  shows "\<exists>m. classify_land_cover ndvi ndwi ndbi = Inr m \<and>
           (\<forall>i < fst (shape ndvi). \<forall>j < snd (shape ndvi).
              length (filter (\<lambda>a. cell a i j = 1) (mask_list m)) \<le> 1 \<and>
              (\<forall>a \<in> set (mask_list m). cell a i j = 0 \<or> cell a i j = 1))"
proof -
  obtain m where m: "classify_land_cover ndvi ndwi ndbi = Inr m"
    using classify_land_cover_total [OF assms(4,5)] by blast
  obtain bu wa fo ve ba where t: "m = (bu, wa, fo, ve, ba)"
    by (cases m) auto
  have "length (filter (\<lambda>a. cell a i j = 1) (mask_list m)) \<le> 1 \<and>
        (\<forall>a \<in> set (mask_list m). cell a i j = 0 \<or> cell a i j = 1)"
    if "i < fst (shape ndvi)" and "j < snd (shape ndvi)" for i j
  proof -
    have c: "pixel_masks (cell ndvi i j) (cell ndwi i j) (cell ndbi i j) =
          (cell bu i j, cell wa i j, cell fo i j, cell ve i j, cell ba i j)"
      using classify_land_cover_cells [OF assms m that] by (simp add: t cells_of_def)
    have "length (filter (\<lambda>a. cell a i j = 1) (mask_list m)) =
          length (filter (\<lambda>x. x = 1)
            [cell bu i j, cell wa i j, cell fo i j, cell ve i j, cell ba i j])"
      by (simp add: t mask_list_def)
    moreover have "(\<forall>a \<in> set (mask_list m). cell a i j = 0 \<or> cell a i j = 1) \<longleftrightarrow>
          set [cell bu i j, cell wa i j, cell fo i j, cell ve i j, cell ba i j] \<subseteq> {0, 1}"
      by (simp add: t mask_list_def)
    ultimately show ?thesis
      using pixel_masks_exclusive [OF c] by presburger
  qed
  with m show ?thesis by blast
qed

lemma ex_index_arrays:
  "wf_array ex_ndvi" "wf_array ex_ndwi" "wf_array ex_ndbi"
  "shape ex_ndwi = shape ex_ndvi" "shape ex_ndbi = shape ex_ndvi"
  by (simp_all add: wf_array_def ex_ndvi_def ex_ndwi_def ex_ndbi_def)

theorem classify_land_cover_mutually_exclusive_witness:
  "wf_array ex_ndvi \<and> wf_array ex_ndwi \<and> wf_array ex_ndbi \<and>
   shape ex_ndwi = shape ex_ndvi \<and> shape ex_ndbi = shape ex_ndvi \<and>
   (\<exists>m. classify_land_cover ex_ndvi ex_ndwi ex_ndbi = Inr m \<and>
           (\<forall>i < fst (shape ex_ndvi). \<forall>j < snd (shape ex_ndvi).
              length (filter (\<lambda>a. cell a i j = 1) (mask_list m)) \<le> 1 \<and>
              (\<forall>a \<in> set (mask_list m). cell a i j = 0 \<or> cell a i j = 1)))"
  using classify_land_cover_mutually_exclusive [OF ex_index_arrays] ex_index_arrays
  by blast

lemma pixel_masks_precedence:
  "fless (Fin 0) b \<Longrightarrow> \<exists>bu wa. pixel_masks v w b = (bu, wa, 0, 0, 0)"
  "fless (Fin 0) w \<Longrightarrow> pixel_masks v w b = (0, 1, 0, 0, 0)"
  "\<not> fless (Fin 0) w \<Longrightarrow> fless (Fin 0) b \<Longrightarrow> pixel_masks v w b = (1, 0, 0, 0, 0)"
  by (simp_all add: pixel_masks_def Let_def)

text \<open>
  C2. Water takes precedence over built-up, and built-up over forest, vegetation and
  barren: where \<open>NDBI > 0\<close> the final forest, vegetation and barren masks are 0; where
  \<open>NDWI > 0\<close> the final forest, vegetation, barren and built-up masks are 0 and water
  is 1; where \<open>NDBI > 0\<close> and not \<open>NDWI > 0\<close> the pixel is built-up. A pixel with
  NDVI 0.6, NDBI 0.2 and NDWI at most 0 ends up built-up only, one with NDWI 0.3 and
  NDBI 0.2 ends up water only.
\<close>

theorem classify_land_cover_precedence:
  assumes "wf_array ndvi" and "wf_array ndwi" and "wf_array ndbi"
    and "shape ndwi = shape ndvi" and "shape ndbi = shape ndvi"
  shows "\<exists>built_up water forest vegetation barren.
           classify_land_cover ndvi ndwi ndbi = Inr (built_up, water, forest, vegetation, barren) \<and>
           (\<forall>i < fst (shape ndvi). \<forall>j < snd (shape ndvi).
              (fless (Fin 0) (cell ndbi i j) \<longrightarrow>
                 cell forest i j = 0 \<and> cell vegetation i j = 0 \<and> cell barren i j = 0) \<and>
              (fless (Fin 0) (cell ndwi i j) \<longrightarrow>
                 cell forest i j = 0 \<and> cell vegetation i j = 0 \<and> cell barren i j = 0 \<and>
                 cell built_up i j = 0 \<and> cell water i j = 1) \<and>
              (fless (Fin 0) (cell ndbi i j) \<and> \<not> fless (Fin 0) (cell ndwi i j) \<longrightarrow>
                 cell built_up i j = 1 \<and> cell water i j = 0) \<and>
              (cell ndvi i j = Fin 0.6 \<and> cell ndbi i j = Fin 0.2 \<and> fle (cell ndwi i j) (Fin 0) \<longrightarrow>
                 cells_of (built_up, water, forest, vegetation, barren) i j = (1, 0, 0, 0, 0)) \<and>
              (cell ndwi i j = Fin 0.3 \<and> cell ndbi i j = Fin 0.2 \<longrightarrow>
                 cells_of (built_up, water, forest, vegetation, barren) i j = (0, 1, 0, 0, 0)))"
proof -
  obtain m where m: "classify_land_cover ndvi ndwi ndbi = Inr m"
    using classify_land_cover_total [OF assms(4,5)] by blast
  obtain bu wa fo ve ba where t: "m = (bu, wa, fo, ve, ba)"
    by (cases m) auto
  have "(fless (Fin 0) (cell ndbi i j) \<longrightarrow>
                 cell fo i j = 0 \<and> cell ve i j = 0 \<and> cell ba i j = 0) \<and>
              (fless (Fin 0) (cell ndwi i j) \<longrightarrow>
                 cell fo i j = 0 \<and> cell ve i j = 0 \<and> cell ba i j = 0 \<and>
                 cell bu i j = 0 \<and> cell wa i j = 1) \<and>
              (fless (Fin 0) (cell ndbi i j) \<and> \<not> fless (Fin 0) (cell ndwi i j) \<longrightarrow>
                 cell bu i j = 1 \<and> cell wa i j = 0) \<and>
              (cell ndvi i j = Fin 0.6 \<and> cell ndbi i j = Fin 0.2 \<and> fle (cell ndwi i j) (Fin 0) \<longrightarrow>
                 cells_of (bu, wa, fo, ve, ba) i j = (1, 0, 0, 0, 0)) \<and>
              (cell ndwi i j = Fin 0.3 \<and> cell ndbi i j = Fin 0.2 \<longrightarrow>
                 cells_of (bu, wa, fo, ve, ba) i j = (0, 1, 0, 0, 0))"
    if "i < fst (shape ndvi)" and "j < snd (shape ndvi)" for i j
  proof -
    have c: "cells_of (bu, wa, fo, ve, ba) i j =
        pixel_masks (cell ndvi i j) (cell ndwi i j) (cell ndbi i j)"
      using classify_land_cover_cells [OF assms m that] by (simp add: t)
    have d: "cells_of (bu, wa, fo, ve, ba) i j =
        (cell bu i j, cell wa i j, cell fo i j, cell ve i j, cell ba i j)"
      by (simp add: cells_of_def)
    have le: "\<not> fless (Fin 0) (cell ndwi i j)" if "fle (cell ndwi i j) (Fin 0)"
      using that by (cases "cell ndwi i j") simp_all
    have e: "pixel_masks (cell ndvi i j) (cell ndwi i j) (cell ndbi i j) =
        (cell bu i j, cell wa i j, cell fo i j, cell ve i j, cell ba i j)"
      using c d by simp
    show ?thesis
      using pixel_masks_precedence
        [where v = "cell ndvi i j" and w = "cell ndwi i j" and b = "cell ndbi i j"] le
      unfolding d e by auto
  qed
  with m t show ?thesis by blast
qed

theorem classify_land_cover_precedence_witness:
  "wf_array ex_ndvi \<and> wf_array ex_ndwi \<and> wf_array ex_ndbi \<and>
   shape ex_ndwi = shape ex_ndvi \<and> shape ex_ndbi = shape ex_ndvi \<and>
   classify_land_cover ex_ndvi ex_ndwi ex_ndbi =
     Inr (\<lparr>shape = (1, 3), cells = [[1, 0, 0]]\<rparr>, \<lparr>shape = (1, 3), cells = [[0, 1, 0]]\<rparr>,
          \<lparr>shape = (1, 3), cells = [[0, 0, 0]]\<rparr>, \<lparr>shape = (1, 3), cells = [[0, 0, 0]]\<rparr>,
          \<lparr>shape = (1, 3), cells = [[0, 0, 0]]\<rparr>) \<and>
   (\<exists>built_up water forest vegetation barren.
      classify_land_cover ex_ndvi ex_ndwi ex_ndbi =
        Inr (built_up, water, forest, vegetation, barren) \<and>
      (fless (Fin 0) (cell ex_ndbi 0 0) \<longrightarrow>
         cell forest 0 0 = 0 \<and> cell vegetation 0 0 = 0 \<and> cell barren 0 0 = 0) \<and>
      (fless (Fin 0) (cell ex_ndwi 0 1) \<longrightarrow>
         cell forest 0 1 = 0 \<and> cell vegetation 0 1 = 0 \<and> cell barren 0 1 = 0 \<and>
         cell built_up 0 1 = 0 \<and> cell water 0 1 = 1))"
proof -
  have v: "classify_land_cover ex_ndvi ex_ndwi ex_ndbi =
     Inr (\<lparr>shape = (1, 3), cells = [[1, 0, 0]]\<rparr>, \<lparr>shape = (1, 3), cells = [[0, 1, 0]]\<rparr>,
          \<lparr>shape = (1, 3), cells = [[0, 0, 0]]\<rparr>, \<lparr>shape = (1, 3), cells = [[0, 0, 0]]\<rparr>,
          \<lparr>shape = (1, 3), cells = [[0, 0, 0]]\<rparr>)"
    by (simp add: classify_land_cover_def Let_def ex_ndvi_def ex_ndwi_def ex_ndbi_def
        array_simps map_array_def zip_array_def)
  have s: "(0::nat) < fst (shape ex_ndvi)" "(0::nat) < snd (shape ex_ndvi)"
    "(1::nat) < snd (shape ex_ndvi)"
    by (simp_all add: ex_ndvi_def)
  show ?thesis
    using classify_land_cover_precedence [OF ex_index_arrays] ex_index_arrays v s
    by fastforce
qed

subsection \<open>Spectral indices\<close>

text \<open>
  C6. With fewer than 4 bands \<open>calculate_ndvi\<close> and \<open>calculate_ndwi\<close> return the all-zero
  array of shape (Height, Width), with fewer than 5 bands \<open>calculate_ndbi\<close> does; the
  result is a value (\<open>Inr\<close>), never an error.
\<close>

theorem insufficient_bands_zero:
  assumes "ishape img = (h, w, b)"
  shows "(b < 4 \<longrightarrow> calculate_ndvi img = Inr (np_zeros (h, w)) \<and>
                    calculate_ndwi img = Inr (np_zeros (h, w))) \<and>
         (b < 5 \<longrightarrow> calculate_ndbi img = Inr (np_zeros (h, w))) \<and>
         shape (np_zeros (h, w)) = (h, w) \<and> wf_array (np_zeros (h, w)) \<and>
         (\<forall>i < h. \<forall>j < w. cell (np_zeros (h, w)) i j = Fin 0)"
  using assms
  by (simp add: calculate_ndvi_def calculate_ndwi_def calculate_ndbi_def np_zeros_def
      wf_array_def cell_def list_all_length)

theorem insufficient_bands_zero_witness:
  "ishape ex_image3 = (1, 2, 3) \<and>
   calculate_ndvi ex_image3 = Inr \<lparr>shape = (1, 2), cells = [[Fin 0, Fin 0]]\<rparr> \<and>
   calculate_ndwi ex_image3 = Inr \<lparr>shape = (1, 2), cells = [[Fin 0, Fin 0]]\<rparr> \<and>
   calculate_ndbi ex_image3 = Inr \<lparr>shape = (1, 2), cells = [[Fin 0, Fin 0]]\<rparr>"
proof -
  have s: "ishape ex_image3 = (1, 2, 3)"
    by (simp add: ex_image3_def)
  have z: "np_zeros (1, 2) = \<lparr>shape = (1, 2), cells = [[Fin 0, Fin 0]]\<rparr>"
    by (simp add: np_zeros_def numeral_2_eq_2)
  show ?thesis
    using insufficient_bands_zero [OF s] s z by simp
qed

lemma band_cells:
  assumes "wf_image img" and "ishape img = (h, w, b)" and "k < b"
  shows "\<exists>a. band img k = Inr a \<and> wf_array a \<and> shape a = (h, w) \<and>
           (\<forall>i < h. \<forall>j < w. cell a i j = px img i j k)"
  using assms
  by (simp add: band_def wf_image_def wf_array_def cell_def px_def list_all_length)

lemma index_cells:
  assumes "wf_array x" and "wf_array y" and "shape y = shape x"
    and "i < fst (shape x)" and "j < snd (shape x)"
  shows "cell (clip_array (arr_div (arr_sub x y) (arr_add_scalar (arr_add x y) eps)) (- 1) 1) i j
       = spec_index (cell x i j) (cell y i j)"
  using assms
  by (simp add: clip_array_def arr_div_def arr_sub_def arr_add_def arr_add_scalar_def
      spec_index_def cell_map_array cell_zip_array wf_zip_array)

lemma index_wf:
  assumes "wf_array x" and "wf_array y" and "shape y = shape x"
  shows "wf_array (clip_array (arr_div (arr_sub x y) (arr_add_scalar (arr_add x y) eps)) (- 1) 1)"
    and "shape (clip_array (arr_div (arr_sub x y) (arr_add_scalar (arr_add x y) eps)) (- 1) 1) = shape x"
  using assms
  by (simp_all add: clip_array_def arr_div_def arr_sub_def arr_add_def arr_add_scalar_def
       wf_zip_array)

lemma calculate_ndvi_cells:
  assumes "wf_image img" and "ishape img = (h, w, b)" and "4 \<le> b"
  shows "\<exists>a. calculate_ndvi img = Inr a \<and> wf_array a \<and> shape a = (h, w) \<and>
           (\<forall>i < h. \<forall>j < w. cell a i j = spec_index (px img i j 3) (px img i j 2))"
proof -
  obtain nir where nir: "band img 3 = Inr nir" "wf_array nir" "shape nir = (h, w)"
      "\<forall>i < h. \<forall>j < w. cell nir i j = px img i j 3"
    using band_cells [OF assms(1,2), of 3] assms(3) by auto
  obtain red where red: "band img 2 = Inr red" "wf_array red" "shape red = (h, w)"
      "\<forall>i < h. \<forall>j < w. cell red i j = px img i j 2"
    using band_cells [OF assms(1,2), of 2] assms(3) by auto
  have s: "shape red = shape nir"
    using nir red by simp
  show ?thesis
    using assms(2,3) nir red index_wf [OF nir(2) red(2) s] index_cells [OF nir(2) red(2) s]
    by (simp add: calculate_ndvi_def Let_def)
qed

lemma calculate_ndwi_cells:
  assumes "wf_image img" and "ishape img = (h, w, b)" and "4 \<le> b"
  shows "\<exists>a. calculate_ndwi img = Inr a \<and> wf_array a \<and> shape a = (h, w) \<and>
           (\<forall>i < h. \<forall>j < w. cell a i j = spec_index (px img i j 1) (px img i j 3))"
proof -
  obtain green where green: "band img 1 = Inr green" "wf_array green" "shape green = (h, w)"
      "\<forall>i < h. \<forall>j < w. cell green i j = px img i j 1"
    using band_cells [OF assms(1,2), of 1] assms(3) by auto
  obtain nir where nir: "band img 3 = Inr nir" "wf_array nir" "shape nir = (h, w)"
      "\<forall>i < h. \<forall>j < w. cell nir i j = px img i j 3"
    using band_cells [OF assms(1,2), of 3] assms(3) by auto
  have s: "shape nir = shape green"
    using nir green by simp
  show ?thesis
    using assms(2,3) nir green index_wf [OF green(2) nir(2) s]
      index_cells [OF green(2) nir(2) s]
    by (simp add: calculate_ndwi_def Let_def)
qed

lemma calculate_ndbi_cells:
  assumes "wf_image img" and "ishape img = (h, w, b)" and "5 \<le> b"
  shows "\<exists>a. calculate_ndbi img = Inr a \<and> wf_array a \<and> shape a = (h, w) \<and>
           (\<forall>i < h. \<forall>j < w. cell a i j = spec_index (px img i j 4) (px img i j 3))"
proof -
  obtain swir where swir: "band img 4 = Inr swir" "wf_array swir" "shape swir = (h, w)"
      "\<forall>i < h. \<forall>j < w. cell swir i j = px img i j 4"
    using band_cells [OF assms(1,2), of 4] assms(3) by auto
  obtain nir where nir: "band img 3 = Inr nir" "wf_array nir" "shape nir = (h, w)"
      "\<forall>i < h. \<forall>j < w. cell nir i j = px img i j 3"
    using band_cells [OF assms(1,2), of 3] assms(3) by auto
  have s: "shape nir = shape swir"
    using nir swir by simp
  show ?thesis
    using assms(2,3) nir swir index_wf [OF swir(2) nir(2) s]
      index_cells [OF swir(2) nir(2) s]
    by (simp add: calculate_ndbi_def Let_def)
qed

text \<open>
  C7. With at least 4 bands, \<open>calculate_ndvi\<close> returns at every pixel
  \<open>clip((band3 - band2) / (band3 + band2 + 1e-8), -1, 1)\<close> and \<open>calculate_ndwi\<close> returns
  \<open>clip((band1 - band3) / (band1 + band3 + 1e-8), -1, 1)\<close>; with at least 5 bands,
  \<open>calculate_ndbi\<close> returns \<open>clip((band4 - band3) / (band4 + band3 + 1e-8), -1, 1)\<close>.
\<close>

theorem index_formulas:
  assumes "wf_image img" and "ishape img = (h, w, b)"
  shows "(4 \<le> b \<longrightarrow>
           (\<exists>ndvi ndwi. calculate_ndvi img = Inr ndvi \<and> calculate_ndwi img = Inr ndwi \<and>
              shape ndvi = (h, w) \<and> shape ndwi = (h, w) \<and>
              (\<forall>i < h. \<forall>j < w.
                 cell ndvi i j = spec_index (px img i j 3) (px img i j 2) \<and>
                 cell ndwi i j = spec_index (px img i j 1) (px img i j 3)))) \<and>
         (5 \<le> b \<longrightarrow>
           (\<exists>ndbi. calculate_ndbi img = Inr ndbi \<and> shape ndbi = (h, w) \<and>
              (\<forall>i < h. \<forall>j < w.
                 cell ndbi i j = spec_index (px img i j 4) (px img i j 3))))"
  using calculate_ndvi_cells [OF assms] calculate_ndwi_cells [OF assms]
    calculate_ndbi_cells [OF assms]
  by blast


lemma spec_index_value:
  "x + y + eps \<noteq> 0 \<Longrightarrow> spec_index x y = Fin (min (max ((x - y) / (x + y + eps)) (- 1)) 1)"
  by (simp add: spec_index_def rdiv_def)

theorem index_formulas_witness:
  "wf_image ex_image5 \<and> ishape ex_image5 = (1, 2, 5) \<and>
   calculate_ndvi ex_image5 =
     Inr \<lparr>shape = (1, 2), cells = [[Fin (20000000 / 80000001), Fin (- (10000000 / 50000001))]]\<rparr> \<and>
   (\<exists>ndvi. calculate_ndvi ex_image5 = Inr ndvi \<and>
      cell ndvi 0 1 = spec_index (px ex_image5 0 1 3) (px ex_image5 0 1 2) \<and>
      spec_index (px ex_image5 0 1 3) (px ex_image5 0 1 2) = Fin (- (10000000 / 50000001))) \<and>
   (\<exists>ndbi. calculate_ndbi ex_image5 = Inr ndbi \<and>
      cell ndbi 0 1 = spec_index (px ex_image5 0 1 4) (px ex_image5 0 1 3))"
proof -
  have w: "wf_image ex_image5" and s: "ishape ex_image5 = (1, 2, 5)"
    by (simp_all add: wf_image_def ex_image5_def)
  have v: "calculate_ndvi ex_image5 =
     Inr \<lparr>shape = (1, 2), cells = [[Fin (20000000 / 80000001), Fin (- (10000000 / 50000001))]]\<rparr>"
    by (simp add: calculate_ndvi_def band_def ex_image5_def Let_def clip_array_def arr_div_def
        arr_sub_def arr_add_def arr_add_scalar_def map_array_def zip_array_def rdiv_def eps_def)
  have e: "spec_index (px ex_image5 0 1 3) (px ex_image5 0 1 2) = Fin (- (10000000 / 50000001))"
    by (simp add: spec_index_def px_def ex_image5_def rdiv_def eps_def)
  show ?thesis
    using index_formulas [OF w s] w s v e by fastforce
qed









subsection \<open>Change detection\<close>

lemma binary_cell:
  "binary_mask a \<Longrightarrow> wf_array a \<Longrightarrow> i < fst (shape a) \<Longrightarrow> j < snd (shape a) \<Longrightarrow>
   cell a i j = 0 \<or> cell a i j = 1"
  by (simp add: binary_mask_def wf_array_def cell_def list_all_length)

lemma zeros_uint8_simps [simp]:
  "wf_array (zeros_uint8 s)" "shape (zeros_uint8 s) = s"
  by (simp_all add: zeros_uint8_def wf_array_def list_all_length)

lemma zeros_uint8_cell:
  "i < fst s \<Longrightarrow> j < snd s \<Longrightarrow> cell (zeros_uint8 s) i j = 0"
  by (simp add: zeros_uint8_def cell_def)

lemma ex_less_5:
  "(\<exists>k<5. P k) \<longleftrightarrow> P (0::nat) \<or> P 1 \<or> P 2 \<or> P 3 \<or> P 4"
  by (auto simp add: eval_nat_numeral less_Suc_eq)

lemma total_change_cells:
  assumes "list_all (\<lambda>a. wf_array a \<and> shape a = s) (mask_list m1 @ mask_list m2)"
  shows "\<exists>tc. total_change m1 m2 = Inr tc \<and> wf_array tc \<and> shape tc = s \<and>
           (\<forall>i < fst s. \<forall>j < snd s.
              cell tc i j \<longleftrightarrow>
                (\<exists>k<5. change_threshold <
                   \<bar>cell (mask_list m2 ! k) i j - cell (mask_list m1 ! k) i j\<bar>))"
proof -
  obtain b1 w1 f1 v1 r1 where m1: "m1 = (b1, w1, f1, v1, r1)"
    by (cases m1) auto
  obtain b2 w2 f2 v2 r2 where m2: "m2 = (b2, w2, f2, v2, r2)"
    by (cases m2) auto
  show ?thesis
    using assms unfolding m1 m2 ex_less_5
    by (simp add: total_change_def bind_error_def abs_diff_gt_def arr_or_def mask_list_def
        wf_zip_array cell_zip_array)
qed

lemma create_change_map_cells:
  assumes "total_change m1 m2 = Inr tc" and "wf_array tc"
    and "0 < fst (shape tc) * snd (shape tc)"
  shows "\<exists>cm. create_change_map m1 m2 = Inr cm \<and> wf_array cm \<and> shape cm = shape tc \<and>
           (\<forall>i < fst (shape tc). \<forall>j < snd (shape tc).
              cell cm i j = (if cell tc i j then 255 else 0))"
  using assms
  by (simp add: create_change_map_def bind_error_def mask_assign_def wf_zip_array
      cell_zip_array zeros_uint8_cell save_image_def asize_def Let_def)

lemma create_change_map_no_pixels:
  assumes "total_change m1 m2 = Inr tc" and "fst (shape tc) * snd (shape tc) = 0"
  shows "create_change_map m1 m2 = Inl ValueError"
  using assms
  by (simp add: create_change_map_def bind_error_def mask_assign_def save_image_def
      asize_def Let_def)

lemma binary_flip:
  fixes x y :: real
  assumes "x = 0 \<or> x = 1" and "y = 0 \<or> y = 1"
  shows "change_threshold < \<bar>y - x\<bar> \<longleftrightarrow> x \<noteq> y"
  using assms by (auto simp add: change_threshold_def)

text \<open>
  C3. For two sets of five binary masks of one shape, \<open>total_change\<close>, the unified change
  mask of \<open>create_change_map\<close>, holds at a pixel if and only if the absolute difference of
  some class's two masks exceeds 0.1 there, that is if and only if the five memberships
  of the pixel are not the same in both sets. When the masks have at least one pixel,
  \<open>create_change_map\<close> returns the image that is 255 where the mask holds and 0 elsewhere;
  when they have none, there is no pixel to mark and saving the image raises ValueError.
\<close>

theorem change_mask_correct:
  assumes "list_all (\<lambda>a. wf_array a \<and> shape a = s \<and> binary_mask a)
             (mask_list masks1 @ mask_list masks2)"
  shows "\<exists>tc. total_change masks1 masks2 = Inr tc \<and> shape tc = s \<and>
           (\<forall>i < fst s. \<forall>j < snd s.
              (cell tc i j \<longleftrightarrow>
                 (\<exists>k<5. 0.1 < \<bar>cell (mask_list masks2 ! k) i j -
                                 cell (mask_list masks1 ! k) i j\<bar>)) \<and>
              (cell tc i j \<longleftrightarrow> cells_of masks1 i j \<noteq> cells_of masks2 i j)) \<and>
           (if fst s * snd s = 0 then create_change_map masks1 masks2 = Inl ValueError
            else \<exists>cm. create_change_map masks1 masks2 = Inr cm \<and> shape cm = s \<and>
                   (\<forall>i < fst s. \<forall>j < snd s.
                      cell cm i j = (if cell tc i j then 255 else 0)))"
proof -
  have wf: "list_all (\<lambda>a. wf_array a \<and> shape a = s) (mask_list masks1 @ mask_list masks2)"
    using assms by (simp add: list_all_iff)
  obtain tc where tc: "total_change masks1 masks2 = Inr tc" "wf_array tc" "shape tc = s"
    "\<forall>i < fst s. \<forall>j < snd s.
       cell tc i j \<longleftrightarrow>
         (\<exists>k<5. change_threshold <
            \<bar>cell (mask_list masks2 ! k) i j - cell (mask_list masks1 ! k) i j\<bar>)"
    using total_change_cells [OF wf] by blast
  have cm: "if fst s * snd s = 0 then create_change_map masks1 masks2 = Inl ValueError
      else \<exists>cm. create_change_map masks1 masks2 = Inr cm \<and> shape cm = s \<and>
             (\<forall>i < fst s. \<forall>j < snd s. cell cm i j = (if cell tc i j then 255 else 0))"
  proof (cases "fst s * snd s = 0")
    case True
    then show ?thesis
      using create_change_map_no_pixels [OF tc(1)] tc(3) by simp
  next
    case False
    then show ?thesis
      using create_change_map_cells [OF tc(1,2)] tc(3) by auto
  qed
  have "cell tc i j \<longleftrightarrow> cells_of masks1 i j \<noteq> cells_of masks2 i j"
    if "i < fst s" and "j < snd s" for i j
  proof -
    obtain b1 w1 f1 v1 r1 where m1: "masks1 = (b1, w1, f1, v1, r1)"
      by (cases masks1) auto
    obtain b2 w2 f2 v2 r2 where m2: "masks2 = (b2, w2, f2, v2, r2)"
      by (cases masks2) auto
    have bin: "\<forall>a \<in> set [b1, w1, f1, v1, r1, b2, w2, f2, v2, r2].
        cell a i j = 0 \<or> cell a i j = 1"
      using assms that binary_cell by (auto simp add: m1 m2 mask_list_def)
    have "cell tc i j \<longleftrightarrow>
        (\<exists>k<5. change_threshold <
            \<bar>cell (mask_list masks2 ! k) i j - cell (mask_list masks1 ! k) i j\<bar>)"
      using tc(4) that by blast
    also have "\<dots> \<longleftrightarrow> cells_of masks1 i j \<noteq> cells_of masks2 i j"
      unfolding ex_less_5 using bin
      by (simp add: m1 m2 mask_list_def cells_of_def binary_flip)
    finally show ?thesis .
  qed
  then have "\<forall>i < fst s. \<forall>j < snd s.
      (cell tc i j \<longleftrightarrow>
         (\<exists>k<5. 0.1 < \<bar>cell (mask_list masks2 ! k) i j - cell (mask_list masks1 ! k) i j\<bar>)) \<and>
      (cell tc i j \<longleftrightarrow> cells_of masks1 i j \<noteq> cells_of masks2 i j)"
    using tc(4) by (simp add: change_threshold_def)
  then show ?thesis
    using tc(1,3) cm by blast
qed

theorem change_mask_correct_witness:
  "list_all (\<lambda>a. wf_array a \<and> shape a = (1, 3) \<and> binary_mask a)
     (mask_list ex_masks1 @ mask_list ex_masks2) \<and>
   create_change_map ex_masks1 ex_masks2 = Inr \<lparr>shape = (1, 3), cells = [[255, 0, 255]]\<rparr> \<and>
   total_change ex_masks1 ex_masks2 = Inr \<lparr>shape = (1, 3), cells = [[True, False, True]]\<rparr> \<and>
   (\<exists>tc. total_change ex_masks1 ex_masks2 = Inr tc \<and>
      (cell tc 0 2 \<longleftrightarrow> cells_of ex_masks1 0 2 \<noteq> cells_of ex_masks2 0 2) \<and>
      (\<exists>cm. create_change_map ex_masks1 ex_masks2 = Inr cm \<and> shape cm = (1, 3) \<and>
         cell cm 0 2 = (if cell tc 0 2 then 255 else 0)))"
proof -
  have h: "list_all (\<lambda>a. wf_array a \<and> shape a = (1, 3) \<and> binary_mask a)
     (mask_list ex_masks1 @ mask_list ex_masks2)"
    by (simp add: ex_masks1_def ex_masks2_def mask_list_def wf_array_def binary_mask_def)
  have v: "create_change_map ex_masks1 ex_masks2 =
      Inr \<lparr>shape = (1, 3), cells = [[255, 0, 255]]\<rparr>"
    by (simp add: create_change_map_def total_change_def bind_error_def abs_diff_gt_def
        arr_or_def mask_assign_def zip_array_def zeros_uint8_def ex_masks1_def ex_masks2_def
        change_threshold_def numeral_3_eq_3 save_image_def asize_def Let_def)
  have t: "total_change ex_masks1 ex_masks2 =
      Inr \<lparr>shape = (1, 3), cells = [[True, False, True]]\<rparr>"
    by (simp add: total_change_def bind_error_def abs_diff_gt_def arr_or_def zip_array_def
        ex_masks1_def ex_masks2_def change_threshold_def)
  have s: "(0::nat) < fst (1, 3)" "(2::nat) < snd (1, 3::nat)"
    "fst (1::nat, 3::nat) * snd (1::nat, 3::nat) \<noteq> 0"
    by simp_all
  show ?thesis
    using change_mask_correct [OF h] h v t s by fastforce
qed

lemma map2_flip: "map2 f xs ys = map2 (\<lambda>y x. f x y) ys xs"
  by (induction xs ys rule: list_induct2') simp_all

lemma zip_array_sym:
  assumes "shape a = shape b" and "\<And>x y. f x y = f y x"
  shows "zip_array f a b = zip_array f b a"
proof -
  have "map2 f x y = map2 f y x" for x y
    using map2_flip [of f x y] assms(2) by simp
  then have "map2 (map2 f) (cells a) (cells b) = map2 (map2 f) (cells b) (cells a)"
    using map2_flip [of "map2 f" "cells a" "cells b"] by simp
  then show ?thesis
    using assms(1) by (simp add: zip_array_def)
qed

lemma abs_diff_gt_sym: "abs_diff_gt b a t = abs_diff_gt a b t"
  using zip_array_sym [of b a "\<lambda>y x. t < \<bar>y - x\<bar>"]
  by (auto simp add: abs_diff_gt_def abs_minus_commute)

lemma total_change_sym: "total_change masks2 masks1 = total_change masks1 masks2"
proof -
  obtain b1 w1 f1 v1 r1 where m1: "masks1 = (b1, w1, f1, v1, r1)"
    by (cases masks1) auto
  obtain b2 w2 f2 v2 r2 where m2: "masks2 = (b2, w2, f2, v2, r2)"
    by (cases masks2) auto
  show ?thesis
    unfolding m1 m2 total_change_def
    by (simp add: abs_diff_gt_sym [of b1 b2] abs_diff_gt_sym [of w1 w2]
        abs_diff_gt_sym [of f1 f2] abs_diff_gt_sym [of v1 v2] abs_diff_gt_sym [of r1 r2])
qed

lemma fsub_swap: "fsub a b = fneg (fsub b a)"
  by (cases a; cases b) (simp_all add: rnd_minus [symmetric])

lemma fabs_fneg [simp]: "fabs (fneg v) = fabs v"
  by (cases v) simp_all

lemma total_change_area_negated: "total_change_area (negated cs) = total_change_area cs"
proof -
  have "map (\<lambda>(k, v). fabs v) (negated cs) = map (\<lambda>(k, v). fabs v) cs"
    by (induction cs) (auto simp add: negated_def)
  then show ?thesis
    by (simp add: total_change_area_def)
qed

lemma change_stats_percentages:
  "change_stats (calculate_land_cover_percentages m1) (calculate_land_cover_percentages m2) =
     Inr (map2 (\<lambda>(k, v1) (k', v2). (k, fsub v2 v1))
        (calculate_land_cover_percentages m1) (calculate_land_cover_percentages m2))"
  by (cases m1; cases m2)
     (simp add: calculate_land_cover_percentages_def Let_def bind_error_def dict_get_def)

lemma change_stats_swap:
  "\<exists>cs. change_stats (calculate_land_cover_percentages masks1)
             (calculate_land_cover_percentages masks2) = Inr cs \<and>
          change_stats (calculate_land_cover_percentages masks2)
             (calculate_land_cover_percentages masks1) = Inr (negated cs)"
proof -
  have "map2 (\<lambda>(k, v1) (k', v2). (k, fsub v2 v1))
        (calculate_land_cover_percentages masks2) (calculate_land_cover_percentages masks1) =
      negated (map2 (\<lambda>(k, v1) (k', v2). (k, fsub v2 v1))
        (calculate_land_cover_percentages masks1) (calculate_land_cover_percentages masks2))"
    by (cases masks1; cases masks2;
        simp add: calculate_land_cover_percentages_def Let_def negated_def;
        intro conjI; rule fsub_swap)
  then show ?thesis
    using change_stats_percentages by simp
qed

lemma bind_error_Inr:
  "bind_error r f = Inr y \<longleftrightarrow> (\<exists>x. r = Inr x \<and> f x = Inr y)"
  by (cases r) (simp_all add: bind_error_def)

lemma run_swap:
  assumes "run_lulc_change_analysis image1 image2 = Inr r"
  shows "run_lulc_change_analysis image2 image1 =
     Inr \<lparr>res_image1 = res_image2 r, res_image2 = res_image1 r,
          res_change = negated (res_change r),
          res_total_change_area = res_total_change_area r\<rparr>"
proof -
  from assms obtain ndvi1 ndvi2 ndwi1 ndwi2 ndbi1 ndbi2 masks1 masks2 cm cs where
    a: "calculate_ndvi image1 = Inr ndvi1" "calculate_ndvi image2 = Inr ndvi2"
       "calculate_ndwi image1 = Inr ndwi1" "calculate_ndwi image2 = Inr ndwi2"
       "calculate_ndbi image1 = Inr ndbi1" "calculate_ndbi image2 = Inr ndbi2"
       "classify_land_cover ndvi1 ndwi1 ndbi1 = Inr masks1"
       "classify_land_cover ndvi2 ndwi2 ndbi2 = Inr masks2"
       "create_change_map masks1 masks2 = Inr cm"
       "change_stats (calculate_land_cover_percentages masks1)
          (calculate_land_cover_percentages masks2) = Inr cs"
    and r: "r = \<lparr>res_image1 = calculate_land_cover_percentages masks1,
               res_image2 = calculate_land_cover_percentages masks2,
               res_change = cs, res_total_change_area = total_change_area cs\<rparr>"
    unfolding run_lulc_change_analysis_def bind_error_Inr Let_def by force
  have c: "create_change_map masks2 masks1 = Inr cm"
    using a(9) total_change_sym [of masks2 masks1] by (simp add: create_change_map_def)
  obtain cs' where cs': "change_stats (calculate_land_cover_percentages masks1)
             (calculate_land_cover_percentages masks2) = Inr cs'"
     "change_stats (calculate_land_cover_percentages masks2)
             (calculate_land_cover_percentages masks1) = Inr (negated cs')"
    using change_stats_swap by blast
  then have "cs' = cs"
    using a(10) by simp
  then show ?thesis
    using a c cs' total_change_area_negated [of cs]
    by (simp add: run_lulc_change_analysis_def bind_error_def Let_def r)
qed

text \<open>
  C8. Swapping the two mask sets leaves \<open>total_change\<close> and the image returned by
  \<open>create_change_map\<close> the same, negates every delta of the change record, and leaves
  \<open>total_change_area\<close> the same; so does swapping the two images of the pipeline.
\<close>

theorem swap_images:
  "total_change masks2 masks1 = total_change masks1 masks2 \<and>
   create_change_map masks2 masks1 = create_change_map masks1 masks2 \<and>
   (\<exists>cs. change_stats (calculate_land_cover_percentages masks1)
             (calculate_land_cover_percentages masks2) = Inr cs \<and>
          change_stats (calculate_land_cover_percentages masks2)
             (calculate_land_cover_percentages masks1) = Inr (negated cs) \<and>
          total_change_area (negated cs) = total_change_area cs) \<and>
   (\<forall>r. run_lulc_change_analysis image1 image2 = Inr r \<longrightarrow>
        run_lulc_change_analysis image2 image1 =
          Inr \<lparr>res_image1 = res_image2 r, res_image2 = res_image1 r,
               res_change = negated (res_change r),
               res_total_change_area = res_total_change_area r\<rparr>)"
  using total_change_sym [of masks2 masks1] change_stats_swap [of masks1 masks2]
    total_change_area_negated run_swap [of image1 image2]
  by (auto simp add: create_change_map_def)

lemma run_example:
  "run_lulc_change_analysis ex_image5 ex_image3 =
     Inr \<lparr>res_image1 =
            [(''Built-up Area'', Fin 0), (''Water'', Fin 50), (''Forest'', Fin 0),
             (''Vegetation'', Fin 50), (''Barren Land'', Fin 0)],
          res_image2 =
            [(''Built-up Area'', Fin 0), (''Water'', Fin 0), (''Forest'', Fin 0),
             (''Vegetation'', Fin 0), (''Barren Land'', Fin 100)],
          res_change =
            [(''Built-up Area'', Fin 0), (''Water'', Fin (- 50)), (''Forest'', Fin 0),
             (''Vegetation'', Fin (- 50)), (''Barren Land'', Fin 100)],
          res_total_change_area = Fin 100\<rparr>"
  by (simp add: run_lulc_change_analysis_def bind_error_def Let_def
      calculate_ndvi_def calculate_ndwi_def calculate_ndbi_def band_def ex_image5_def
      ex_image3_def clip_array_def arr_div_def arr_sub_def arr_add_def arr_add_scalar_def
      map_array_def zip_array_def rdiv_def eps_def np_zeros_def numeral_2_eq_2
      classify_land_cover_def arr_gt_def arr_ge_def arr_le_def arr_and_def astype_float_def
      mask_gt_def mask_assign_def create_change_map_def total_change_def abs_diff_gt_def
      arr_or_def zeros_uint8_def save_image_def change_threshold_def
      calculate_land_cover_percentages_def np_sum_def asize_def dict_get_def
      total_change_area_def rnd_minus)

theorem swap_images_witness:
  "run_lulc_change_analysis ex_image3 ex_image5 =
     Inr \<lparr>res_image1 =
            [(''Built-up Area'', Fin 0), (''Water'', Fin 0), (''Forest'', Fin 0),
             (''Vegetation'', Fin 0), (''Barren Land'', Fin 100)],
          res_image2 =
            [(''Built-up Area'', Fin 0), (''Water'', Fin 50), (''Forest'', Fin 0),
             (''Vegetation'', Fin 50), (''Barren Land'', Fin 0)],
          res_change =
            [(''Built-up Area'', Fin 0), (''Water'', Fin 50), (''Forest'', Fin 0),
             (''Vegetation'', Fin 50), (''Barren Land'', Fin (- 100))],
          res_total_change_area = Fin 100\<rparr>"
  using swap_images [of ex_masks1 ex_masks2 ex_image5 ex_image3] run_example
  by (simp add: negated_def)

subsection \<open>The change record\<close>

lemma change_stats_general:
  assumes "set (map fst perc1) \<subseteq> set (map fst perc2)"
  shows "change_stats perc1 perc2 =
     Inr (map (\<lambda>(k, v1). (k, fsub (the (map_of perc2 k)) v1)) perc1)"
  using assms
proof (induction perc1)
  case Nil
  then show ?case by simp
next
  case (Cons p perc1)
  obtain k v1 where p: "p = (k, v1)"
    by (cases p) auto
  have "k \<in> fst ` set perc2"
    using Cons.prems by (simp add: p)
  then obtain v2 where "map_of perc2 k = Some v2"
    by (metis map_of_eq_None_iff not_Some_eq)
  then show ?case
    using Cons by (simp add: p bind_error_def dict_get_def)
qed

lemma map_of_deltas:
  "map_of (map (\<lambda>(k, v1). (k, fsub (the (map_of perc2 k)) v1)) perc1) k =
     map_option (fsub (the (map_of perc2 k))) (map_of perc1 k)"
  by (induction perc1) auto

lemma total_change_area_spec:
  "total_change_area cs = spec_total_change_area (map snd cs)"
proof -
  have "map (\<lambda>(k, v). fabs v) cs = map fabs (map snd cs)"
    by (induction cs) auto
  then show ?thesis
    by (simp only: total_change_area_def spec_total_change_area_def)
qed

lemma run_result:
  assumes "run_lulc_change_analysis image1 image2 = Inr r"
  shows "change_stats (res_image1 r) (res_image2 r) = Inr (res_change r)"
    and "res_total_change_area r = total_change_area (res_change r)"
    and "map fst (res_image1 r) = class_names" and "map fst (res_image2 r) = class_names"
proof -
  from assms obtain masks1 masks2 cs where
    a: "change_stats (calculate_land_cover_percentages masks1)
          (calculate_land_cover_percentages masks2) = Inr cs"
    and r: "r = \<lparr>res_image1 = calculate_land_cover_percentages masks1,
               res_image2 = calculate_land_cover_percentages masks2,
               res_change = cs, res_total_change_area = total_change_area cs\<rparr>"
    unfolding run_lulc_change_analysis_def bind_error_Inr Let_def by force
  show "change_stats (res_image1 r) (res_image2 r) = Inr (res_change r)"
    and "res_total_change_area r = total_change_area (res_change r)"
    using a r by simp_all
  show "map fst (res_image1 r) = class_names" and "map fst (res_image2 r) = class_names"
    unfolding r
    by (cases masks1; cases masks2;
        simp add: calculate_land_cover_percentages_def Let_def class_names_def)+
qed

text \<open>
  C9. For two percentage records over the five classes, the change record has the keys of
  the first record and gives each class the delta \<open>percentage_image2 - percentage_image1\<close>;
  \<open>total_change_area\<close> is the sum of the absolute values of the deltas divided by 2; and
  these are the \<open>change\<close> and \<open>total_change_area\<close> entries of the pipeline's result.
\<close>

theorem change_record_correct:
  assumes "set (map fst perc1) = set class_names" and "set (map fst perc2) = set class_names"
  shows "\<exists>cs. change_stats perc1 perc2 = Inr cs \<and> map fst cs = map fst perc1 \<and>
           (\<forall>k \<in> set class_names.
              map_of cs k = spec_delta perc1 perc2 k \<and> spec_delta perc1 perc2 k \<noteq> None) \<and>
           total_change_area cs = spec_total_change_area (map snd cs) \<and>
           (\<forall>image1 image2 r.
              run_lulc_change_analysis image1 image2 = Inr r \<and>
              res_image1 r = perc1 \<and> res_image2 r = perc2 \<longrightarrow>
              res_change r = cs \<and> res_total_change_area r = total_change_area cs)"
proof -
  let ?cs = "map (\<lambda>(k, v1). (k, fsub (the (map_of perc2 k)) v1)) perc1"
  have cs: "change_stats perc1 perc2 = Inr ?cs"
    using change_stats_general [of perc1 perc2] assms by simp
  have keys: "map fst ?cs = map fst perc1"
    by (induction perc1) auto
  have delta: "map_of ?cs k = spec_delta perc1 perc2 k \<and> spec_delta perc1 perc2 k \<noteq> None"
    if "k \<in> set class_names" for k
  proof -
    have "k \<in> fst ` set perc1" and "k \<in> fst ` set perc2"
      using that assms by auto
    then obtain v1 v2 where "map_of perc1 k = Some v1" and "map_of perc2 k = Some v2"
      by (metis map_of_eq_None_iff not_Some_eq)
    then show ?thesis
      by (simp add: map_of_deltas spec_delta_def)
  qed
  have total: "total_change_area ?cs = spec_total_change_area (map snd ?cs)"
    by (rule total_change_area_spec)
  have "res_change r = ?cs \<and> res_total_change_area r = total_change_area ?cs"
    if "run_lulc_change_analysis image1 image2 = Inr r"
      and "res_image1 r = perc1" and "res_image2 r = perc2" for image1 image2 r
    using run_result(1,2) [OF that(1)] cs that(2,3) by simp
  then show ?thesis
    using cs keys delta total by blast
qed

theorem change_record_correct_witness:
  "set (map fst ex_perc1) = set class_names \<and> set (map fst ex_perc2) = set class_names \<and>
   run_lulc_change_analysis ex_image5 ex_image3 =
     Inr \<lparr>res_image1 = ex_perc1, res_image2 = ex_perc2,
          res_change =
            [(''Built-up Area'', Fin 0), (''Water'', Fin (- 50)), (''Forest'', Fin 0),
             (''Vegetation'', Fin (- 50)), (''Barren Land'', Fin 100)],
          res_total_change_area = Fin 100\<rparr> \<and>
   (\<exists>cs. change_stats ex_perc1 ex_perc2 = Inr cs \<and>
      map_of cs ''Water'' = spec_delta ex_perc1 ex_perc2 ''Water'' \<and>
      spec_delta ex_perc1 ex_perc2 ''Water'' = Some (Fin (- 50)) \<and>
      total_change_area cs = spec_total_change_area (map snd cs) \<and>
      total_change_area cs = Fin 100)"
proof -
  have h: "set (map fst ex_perc1) = set class_names" "set (map fst ex_perc2) = set class_names"
    by (simp_all add: ex_perc1_def ex_perc2_def class_names_def)
  have r: "run_lulc_change_analysis ex_image5 ex_image3 =
     Inr \<lparr>res_image1 = ex_perc1, res_image2 = ex_perc2,
          res_change =
            [(''Built-up Area'', Fin 0), (''Water'', Fin (- 50)), (''Forest'', Fin 0),
             (''Vegetation'', Fin (- 50)), (''Barren Land'', Fin 100)],
          res_total_change_area = Fin 100\<rparr>"
    using run_example by (simp add: ex_perc1_def ex_perc2_def)
  have w: "''Water'' \<in> set class_names"
    by (simp add: class_names_def)
  have d: "spec_delta ex_perc1 ex_perc2 ''Water'' = Some (Fin (- 50))"
    by (simp add: spec_delta_def ex_perc1_def ex_perc2_def rnd_minus)
  show ?thesis
    using change_record_correct [OF h] h r w d by fastforce
qed

subsection \<open>Percentages\<close>

lemma row_sum_count:
  "list_all (\<lambda>x. x = 0 \<or> x = 1) r \<Longrightarrow>
   sum_list r = real (length (filter (\<lambda>x. x = 1) r))"
  by (induction r) auto

lemma np_sum_count:
  "binary_mask a \<Longrightarrow> np_sum a = real (count_ones a)"
proof -
  have "list_all (list_all (\<lambda>x. x = 0 \<or> x = 1)) rows \<Longrightarrow>
        sum_list (map sum_list rows) =
        real (sum_list (map (\<lambda>r. length (filter (\<lambda>x. x = 1) r)) rows))" for rows :: "real list list"
    by (induction rows) (simp_all add: row_sum_count)
  then show "binary_mask a \<Longrightarrow> np_sum a = real (count_ones a)"
    by (simp add: binary_mask_def np_sum_def count_ones_def)
qed

lemma count_ones_le:
  assumes "wf_array a"
  shows "count_ones a \<le> asize a"
proof -
  have rows: "list_all (\<lambda>r. length r = w) rows \<Longrightarrow>
        sum_list (map (\<lambda>r. length (filter (\<lambda>x. x = 1) r)) rows) \<le> length rows * w"
    for rows :: "real list list" and w
  proof (induction rows)
    case Nil
    then show ?case by simp
  next
    case (Cons r rows)
    have "length (filter (\<lambda>x. x = 1) r) \<le> w"
      using Cons.prems length_filter_le [of "\<lambda>x. x = 1" r] by simp
    then show ?case
      using Cons by simp
  qed
  show ?thesis
    using assms rows [where w = "snd (shape a)" and rows = "cells a"]
    by (simp add: wf_array_def count_ones_def asize_def)
qed

lemma percentage_value:
  assumes "wf_array a" and "binary_mask a" and "0 < t" and "asize a = t"
  shows "fmul (fdiv (Fin (np_sum a)) (Fin (real t))) (Fin 100) =
           Fin (rnd (rnd (real (count_ones a) / real t) * 100))"
    and "0 \<le> rnd (rnd (real (count_ones a) / real t) * 100)"
    and "rnd (rnd (real (count_ones a) / real t) * 100) \<le> 100"
proof -
  let ?q = "rnd (real (count_ones a) / real t)"
  show "fmul (fdiv (Fin (np_sum a)) (Fin (real t))) (Fin 100) = Fin (rnd (?q * 100))"
    using assms by (simp add: np_sum_count rdiv_def)
  have "real (count_ones a) \<le> real t"
    using count_ones_le [OF assms(1)] assms(4) by simp
  then have "0 \<le> real (count_ones a) / real t" and "real (count_ones a) / real t \<le> 1"
    using assms(3) by (simp_all add: divide_le_eq)
  then have q: "0 \<le> ?q" "?q \<le> 1"
    by (simp_all add: rnd_nonneg rnd_le_1)
  then show "0 \<le> rnd (?q * 100)"
    by (intro rnd_nonneg) simp
  show "rnd (?q * 100) \<le> 100"
    using q by (intro rnd_le_100) simp_all
qed

lemma cells_nth:
  assumes "wf_array a"
  shows "cells a = map (\<lambda>i. map (\<lambda>j. cell a i j) [0..<snd (shape a)]) [0..<fst (shape a)]"
  using assms
  by (auto simp add: wf_array_def cell_def list_all_length intro!: nth_equalityI)

lemma np_sum_cells:
  assumes "wf_array a"
  shows "np_sum a = sum (\<lambda>i. sum (\<lambda>j. cell a i j) {..<snd (shape a)}) {..<fst (shape a)}"
proof -
  have "np_sum a =
      sum_list (map (\<lambda>i. sum_list (map (\<lambda>j. cell a i j) [0..<snd (shape a)]))
        [0..<fst (shape a)])"
    unfolding np_sum_def by (subst cells_nth [OF assms]) (simp add: comp_def)
  then show ?thesis
    by (simp add: interv_sum_list_conv_sum_set_nat atLeast0LessThan)
qed

lemma pixel_masks_sum:
  assumes "pixel_masks v w b = (bu, wa, fo, ve, ba)"
  shows "bu + wa + fo + ve + ba \<le> 1"
  using assms
  by (cases v; auto simp add: pixel_masks_def Let_def split: if_splits)

lemma classified_sum_le:
  assumes "wf_array ndvi" and "wf_array ndwi" and "wf_array ndbi"
    and "classify_land_cover ndvi ndwi ndbi = Inr (bu, wa, fo, ve, ba)"
  shows "np_sum bu + np_sum wa + np_sum fo + np_sum ve + np_sum ba \<le> real (asize bu)"
proof -
  have sh: "shape ndwi = shape ndvi" "shape ndbi = shape ndvi"
    using classify_land_cover_shapes [OF assms(4)] by simp_all
  have wf: "list_all (\<lambda>a. wf_array a \<and> shape a = shape ndvi) (mask_list (bu, wa, fo, ve, ba))"
    using classify_land_cover_wf [OF assms(1-3) sh assms(4)] .
  let ?h = "fst (shape ndvi)" and ?w = "snd (shape ndvi)"
  have px: "cell bu i j + cell wa i j + cell fo i j + cell ve i j + cell ba i j \<le> 1"
    if "i < ?h" and "j < ?w" for i j
    using classify_land_cover_cells [OF assms(1-3) sh assms(4) that]
      pixel_masks_sum [of "cell ndvi i j" "cell ndwi i j" "cell ndbi i j"]
    by (simp add: cells_of_def)
  have "np_sum bu + np_sum wa + np_sum fo + np_sum ve + np_sum ba =
      sum (\<lambda>i. sum (\<lambda>j. cell bu i j + cell wa i j + cell fo i j + cell ve i j + cell ba i j)
        {..<?w}) {..<?h}"
    using wf by (simp add: mask_list_def np_sum_cells sum.distrib)
  also have "\<dots> \<le> sum (\<lambda>i. sum (\<lambda>j. 1) {..<?w}) {..<?h}"
    by (intro sum_mono) (simp add: px)
  also have "\<dots> = real (asize bu)"
    using wf by (simp add: mask_list_def asize_def)
  finally show ?thesis .
qed

lemma rnd_ninths:
  "rnd (rnd (1 / 9) * 100) = 3127499741229511 / 281474976710656"
  "rnd (rnd (7 / 9) * 100) = 5473124547151645 / 70368744177664"
proof -
  have a: "rnd (1 / 9) = 2001599834386887 / 18014398509481984"
    by (subst rnd_eval [where k = "- 4"])
       (simp_all add: power_int_minus round_half_even_def Let_def)
  have b: "rnd (7 / 9) = 7005599420354105 / 9007199254740992"
    by (subst rnd_eval [where k = "- 1"])
       (simp_all add: power_int_minus round_half_even_def Let_def)
  show "rnd (rnd (1 / 9) * 100) = 3127499741229511 / 281474976710656"
    unfolding a
    by (subst rnd_eval [where k = 3])
       (simp_all add: power_int_minus round_half_even_def Let_def)
  show "rnd (rnd (7 / 9) * 100) = 5473124547151645 / 70368744177664"
    unfolding b
    by (subst rnd_eval [where k = 6])
       (simp_all add: power_int_minus round_half_even_def Let_def)
qed

lemma ex9_classified:
  "classify_land_cover ex9_ndvi (np_zeros (3, 3)) (np_zeros (3, 3)) = Inr ex9_masks"
  by (simp add: classify_land_cover_def Let_def ex9_ndvi_def np_zeros_def numeral_3_eq_3
      array_simps map_array_def zip_array_def ex9_masks_def)

lemma ex9_percentages:
  "calculate_land_cover_percentages ex9_masks =
     [(''Built-up Area'', Fin 0), (''Water'', Fin 0),
      (''Forest'', Fin (3127499741229511 / 281474976710656)),
      (''Vegetation'', Fin (5473124547151645 / 70368744177664)),
      (''Barren Land'', Fin (3127499741229511 / 281474976710656))]"
  by (simp add: ex9_masks_def calculate_land_cover_percentages_def np_sum_def asize_def
      rdiv_def rnd_ninths)

lemma ex9_float_sum:
  "foldl fadd (Fin 0)
     [Fin 0, Fin 0, Fin (3127499741229511 / 281474976710656),
      Fin (5473124547151645 / 70368744177664), Fin (3127499741229511 / 281474976710656)] =
   Fin (7036874417766401 / 70368744177664)"
proof -
  have f1: "rnd (0 + 3127499741229511 / 281474976710656) = 3127499741229511 / 281474976710656"
    by (subst rnd_eval [where k = 3])
       (simp_all add: power_int_minus round_half_even_def Let_def)
  have f2: "rnd (3127499741229511 / 281474976710656 + 5473124547151645 / 70368744177664) =
      6254999482459023 / 70368744177664"
    by (subst rnd_eval [where k = 6])
       (simp_all add: power_int_minus round_half_even_def Let_def)
  have f3: "rnd (6254999482459023 / 70368744177664 + 3127499741229511 / 281474976710656) =
      7036874417766401 / 70368744177664"
    by (subst rnd_eval [where k = 6])
       (simp_all add: power_int_minus round_half_even_def Let_def)
  have z: "rnd (0 + 0) = 0"
    by simp
  show ?thesis
    by (simp only: foldl.simps fadd.simps z f1 f2 f3)
qed

text \<open>
  C4, as the code has it. For five binary masks of one shape with at least one pixel,
  every percentage is the float (number of pixels equal to 1.0 / (height * width)) * 100,
  rounded after the division and after the multiplication, and lies in \<open>[0, 100]\<close>; for
  masks returned by \<open>classify_land_cover\<close> the five pixel counts sum to at most
  height * width.
\<close>

theorem percentages_correct:
  assumes "list_all (\<lambda>a. wf_array a \<and> shape a = s \<and> binary_mask a) (mask_list m)"
    and "0 < fst s * snd s"
  shows "calculate_land_cover_percentages m =
           zip class_names (map spec_percentage (mask_list m)) \<and>
         (\<forall>a \<in> set (mask_list m).
            spec_percentage a =
              Fin (rnd (rnd (real (count_ones a) / real (fst s * snd s)) * 100))) \<and>
         list_all (in_range 0 100) (map snd (calculate_land_cover_percentages m)) \<and>
         (\<forall>ndvi ndwi ndbi.
            wf_array ndvi \<and> wf_array ndwi \<and> wf_array ndbi \<and>
            classify_land_cover ndvi ndwi ndbi = Inr m \<longrightarrow>
            sum_list (map count_ones (mask_list m)) \<le> fst s * snd s)"
proof -
  obtain bu wa fo ve ba where m: "m = (bu, wa, fo, ve, ba)"
    by (cases m) auto
  let ?t = "fst s * snd s"
  let ?p = "\<lambda>a. rnd (rnd (real (count_ones a) / real ?t) * 100)"
  have each: "wf_array a \<and> binary_mask a \<and> asize a = ?t" if "a \<in> set [bu, wa, fo, ve, ba]" for a
    using assms(1) that by (auto simp add: m mask_list_def asize_def)
  have val: "fmul (fdiv (Fin (np_sum a)) (Fin (real ?t))) (Fin 100) = Fin (?p a)"
    and lo: "0 \<le> ?p a" and hi: "?p a \<le> 100" if "a \<in> set [bu, wa, fo, ve, ba]" for a
    using percentage_value [of a ?t] each [OF that] assms(2) by blast+
  have spec: "spec_percentage a = Fin (?p a)" if "a \<in> set [bu, wa, fo, ve, ba]" for a
    using each [OF that] assms(2) by (simp add: spec_percentage_def rdiv_def)
  have t: "asize bu = ?t"
    using each [of bu] by simp
  have calc: "calculate_land_cover_percentages m =
      [(''Built-up Area'', Fin (?p bu)), (''Water'', Fin (?p wa)), (''Forest'', Fin (?p fo)),
       (''Vegetation'', Fin (?p ve)), (''Barren Land'', Fin (?p ba))]"
    unfolding m calculate_land_cover_percentages_def Let_def prod.case t
    by (simp only: val list.set insert_iff simp_thms)
  have c1: "calculate_land_cover_percentages m =
      zip class_names (map spec_percentage (mask_list m))"
    unfolding calc by (simp add: m mask_list_def class_names_def spec)
  have c2: "\<forall>a \<in> set (mask_list m). spec_percentage a = Fin (?p a)"
    using spec by (simp add: m mask_list_def)
  have c3: "list_all (in_range 0 100) (map snd (calculate_land_cover_percentages m))"
    unfolding calc using lo hi by (simp add: in_range_def)
  have c4: "sum_list (map count_ones (mask_list m)) \<le> ?t"
    if "wf_array ndvi" and "wf_array ndwi" and "wf_array ndbi"
      and "classify_land_cover ndvi ndwi ndbi = Inr m" for ndvi ndwi ndbi
  proof -
    have "np_sum bu + np_sum wa + np_sum fo + np_sum ve + np_sum ba \<le> real ?t"
      using classified_sum_le [OF that(1-3)] that(4) t by (simp add: m)
    then have "real (count_ones bu + count_ones wa + count_ones fo + count_ones ve +
        count_ones ba) \<le> real ?t"
      using each by (simp add: np_sum_count)
    then have "count_ones bu + count_ones wa + count_ones fo + count_ones ve +
        count_ones ba \<le> ?t"
      by (simp only: of_nat_le_iff)
    then show ?thesis
      by (simp add: m mask_list_def)
  qed
  show ?thesis
    using c1 c2 c3 c4 by blast
qed

theorem percentages_correct_counterexample:
  "wf_array ex_empty \<and> binary_mask ex_empty \<and>
   calculate_land_cover_percentages (ex_empty, ex_empty, ex_empty, ex_empty, ex_empty) =
     [(''Built-up Area'', NaN), (''Water'', NaN), (''Forest'', NaN), (''Vegetation'', NaN),
      (''Barren Land'', NaN)] \<and>
   \<not> in_range 0 100 NaN \<and>
   classify_land_cover ex9_ndvi (np_zeros (3, 3)) (np_zeros (3, 3)) = Inr ex9_masks \<and>
   calculate_land_cover_percentages ex9_masks =
     [(''Built-up Area'', Fin 0), (''Water'', Fin 0),
      (''Forest'', Fin (3127499741229511 / 281474976710656)),
      (''Vegetation'', Fin (5473124547151645 / 70368744177664)),
      (''Barren Land'', Fin (3127499741229511 / 281474976710656))] \<and>
   (100::real) < 0 + 0 + 3127499741229511 / 281474976710656 +
      5473124547151645 / 70368744177664 + 3127499741229511 / 281474976710656 \<and>
   foldl fadd (Fin 0) (map snd (calculate_land_cover_percentages ex9_masks)) =
     Fin (7036874417766401 / 70368744177664) \<and>
   \<not> fle (Fin (7036874417766401 / 70368744177664)) (Fin 100)"
proof -
  have "calculate_land_cover_percentages (ex_empty, ex_empty, ex_empty, ex_empty, ex_empty) =
     [(''Built-up Area'', NaN), (''Water'', NaN), (''Forest'', NaN), (''Vegetation'', NaN),
      (''Barren Land'', NaN)]"
    by (simp add: ex_empty_def calculate_land_cover_percentages_def np_sum_def asize_def
        rdiv_def)
  moreover have "wf_array ex_empty \<and> binary_mask ex_empty \<and> \<not> in_range 0 100 NaN"
    by (simp add: ex_empty_def wf_array_def binary_mask_def in_range_def)
  moreover have "(100::real) < 0 + 0 + 3127499741229511 / 281474976710656 +
      5473124547151645 / 70368744177664 + 3127499741229511 / 281474976710656"
    by simp
  moreover have "foldl fadd (Fin 0) (map snd (calculate_land_cover_percentages ex9_masks)) =
     Fin (7036874417766401 / 70368744177664)"
    unfolding ex9_percentages using ex9_float_sum by simp
  moreover have "\<not> fle (Fin (7036874417766401 / 70368744177664)) (Fin 100)"
    by simp
  ultimately show ?thesis
    using ex9_classified ex9_percentages by simp
qed

lemma ex_masks1_classified:
  "classify_land_cover ex_ndvi ex_ndwi ex_ndbi = Inr ex_masks1"
  by (simp add: classify_land_cover_def Let_def ex_ndvi_def ex_ndwi_def ex_ndbi_def
      array_simps map_array_def zip_array_def ex_masks1_def)

theorem percentages_correct_witness:
  "list_all (\<lambda>a. wf_array a \<and> shape a = (1, 3) \<and> binary_mask a) (mask_list ex_masks1) \<and>
   (0::nat) < fst (1::nat, 3::nat) * snd (1::nat, 3::nat) \<and>
   wf_array ex_ndvi \<and> wf_array ex_ndwi \<and> wf_array ex_ndbi \<and>
   classify_land_cover ex_ndvi ex_ndwi ex_ndbi = Inr ex_masks1 \<and>
   map count_ones (mask_list ex_masks1) = [1, 1, 0, 0, 0] \<and>
   calculate_land_cover_percentages ex_masks1 =
     zip class_names (map spec_percentage (mask_list ex_masks1)) \<and>
   map snd (calculate_land_cover_percentages ex_masks1) =
     [Fin (rnd (rnd (1 / 3) * 100)), Fin (rnd (rnd (1 / 3) * 100)), Fin 0, Fin 0, Fin 0] \<and>
   list_all (in_range 0 100) (map snd (calculate_land_cover_percentages ex_masks1)) \<and>
   sum_list (map count_ones (mask_list ex_masks1)) \<le> fst (1::nat, 3::nat) * snd (1::nat, 3::nat)"
proof -
  have h: "list_all (\<lambda>a. wf_array a \<and> shape a = (1, 3) \<and> binary_mask a) (mask_list ex_masks1)"
    by (simp add: ex_masks1_def mask_list_def wf_array_def binary_mask_def)
  have n: "(0::nat) < fst (1::nat, 3::nat) * snd (1::nat, 3::nat)"
    by simp
  have c: "map count_ones (mask_list ex_masks1) = [1, 1, 0, 0, 0]"
    by (simp add: ex_masks1_def mask_list_def count_ones_def)
  have v: "map snd (calculate_land_cover_percentages ex_masks1) =
     [Fin (rnd (rnd (1 / 3) * 100)), Fin (rnd (rnd (1 / 3) * 100)), Fin 0, Fin 0, Fin 0]"
    by (simp add: ex_masks1_def calculate_land_cover_percentages_def np_sum_def asize_def
        rdiv_def)
  show ?thesis
    using percentages_correct [OF h n] h n c v ex_index_arrays(1-3) ex_masks1_classified
    by blast
qed

subsection \<open>Images without a near-infrared band\<close>

lemma np_zeros_const: "np_zeros s = const_array s (Fin 0)"
  by (simp add: np_zeros_def const_array_def)

lemma map_const_array: "map_array f (const_array s v) = const_array s (f v)"
  by (simp add: map_array_def const_array_def)

lemma zip_const_array: "zip_array f (const_array s x) (const_array s y) = const_array s (f x y)"
  by (simp add: zip_array_def const_array_def zip_replicate)

lemma const_array_cell:
  "i < fst s \<Longrightarrow> j < snd s \<Longrightarrow> cell (const_array s v) i j = v"
  by (simp add: const_array_def cell_def)

lemma const_array_sum: "np_sum (const_array s v) = real (fst s) * (real (snd s) * v)"
  by (simp add: np_sum_def const_array_def sum_list_replicate)

lemma const_array_size: "asize (const_array s v) = fst s * snd s"
  by (simp add: asize_def const_array_def)

lemma classify_zeros:
  "classify_land_cover (np_zeros s) (np_zeros s) (np_zeros s) =
     Inr (const_array s 0, const_array s 0, const_array s 0, const_array s 0, const_array s 1)"
  by (simp add: classify_land_cover_def Let_def np_zeros_const arr_gt_def arr_ge_def arr_le_def
      arr_and_def astype_float_def mask_gt_def mask_assign_def map_const_array zip_const_array
      const_array_def [of s "0::real", symmetric])

lemma all_barren_percentages:
  assumes "0 < fst s * snd s"
  shows "calculate_land_cover_percentages
           (const_array s 0, const_array s 0, const_array s 0, const_array s 0, const_array s 1) =
         [(''Built-up Area'', Fin 0), (''Water'', Fin 0), (''Forest'', Fin 0),
          (''Vegetation'', Fin 0), (''Barren Land'', Fin 100)]"
  using assms
  by (simp add: calculate_land_cover_percentages_def Let_def const_array_sum const_array_size
      rdiv_def)

lemma run_first_image:
  assumes "run_lulc_change_analysis image1 image2 = Inr r"
  shows "\<exists>ndvi ndwi ndbi m.
           calculate_ndvi image1 = Inr ndvi \<and> calculate_ndwi image1 = Inr ndwi \<and>
           calculate_ndbi image1 = Inr ndbi \<and> classify_land_cover ndvi ndwi ndbi = Inr m \<and>
           res_image1 r = calculate_land_cover_percentages m"
  using assms unfolding run_lulc_change_analysis_def bind_error_Inr Let_def by force

text \<open>
  C10, as the code has it. For a pixel array with fewer than 4 bands and at least one
  pixel, the three indices are all-zero arrays, \<open>classify_land_cover\<close> marks every pixel as
  barren and as nothing else, and the percentage record is 100.0 for Barren Land and 0.0
  for the other four classes; this is the record the pipeline reports for the image.
\<close>

theorem band_deficient_all_barren:
  assumes "ishape img = (h, w, b)" and "b < 4" and "0 < h * w"
  shows "calculate_ndvi img = Inr (np_zeros (h, w)) \<and>
         calculate_ndwi img = Inr (np_zeros (h, w)) \<and>
         calculate_ndbi img = Inr (np_zeros (h, w)) \<and>
         (\<exists>m. classify_land_cover (np_zeros (h, w)) (np_zeros (h, w)) (np_zeros (h, w)) = Inr m \<and>
            (\<forall>i < h. \<forall>j < w. cells_of m i j = (0, 0, 0, 0, 1)) \<and>
            calculate_land_cover_percentages m =
              [(''Built-up Area'', Fin 0), (''Water'', Fin 0), (''Forest'', Fin 0),
               (''Vegetation'', Fin 0), (''Barren Land'', Fin 100)]) \<and>
         (\<forall>image2 r. run_lulc_change_analysis img image2 = Inr r \<longrightarrow>
            res_image1 r =
              [(''Built-up Area'', Fin 0), (''Water'', Fin 0), (''Forest'', Fin 0),
               (''Vegetation'', Fin 0), (''Barren Land'', Fin 100)])"
proof -
  let ?z = "np_zeros (h, w)"
  let ?m = "(const_array (h, w) 0, const_array (h, w) 0, const_array (h, w) 0,
             const_array (h, w) 0, const_array (h, w) (1::real))"
  let ?p = "[(''Built-up Area'', Fin 0), (''Water'', Fin 0), (''Forest'', Fin 0),
             (''Vegetation'', Fin 0), (''Barren Land'', Fin 100)]"
  have idx: "calculate_ndvi img = Inr ?z" "calculate_ndwi img = Inr ?z"
    "calculate_ndbi img = Inr ?z"
    using assms(1,2) by (simp_all add: calculate_ndvi_def calculate_ndwi_def calculate_ndbi_def)
  have cls: "classify_land_cover ?z ?z ?z = Inr ?m"
    by (rule classify_zeros)
  have px: "\<forall>i < h. \<forall>j < w. cells_of ?m i j = (0, 0, 0, 0, 1)"
    by (simp add: cells_of_def const_array_cell)
  have perc: "calculate_land_cover_percentages ?m = ?p"
    using all_barren_percentages [of "(h, w)"] assms(3) by simp
  have "res_image1 r = ?p" if "run_lulc_change_analysis img image2 = Inr r" for image2 r
    using run_first_image [OF that] idx cls perc by auto
  then show ?thesis
    using idx cls px perc by blast
qed

theorem band_deficient_all_barren_counterexample:
  "ishape ex_image_empty = (0, 0, 3) \<and>
   calculate_ndvi ex_image_empty = Inr (np_zeros (0, 0)) \<and>
   calculate_ndwi ex_image_empty = Inr (np_zeros (0, 0)) \<and>
   calculate_ndbi ex_image_empty = Inr (np_zeros (0, 0)) \<and>
   classify_land_cover (np_zeros (0, 0)) (np_zeros (0, 0)) (np_zeros (0, 0)) =
     Inr (ex_empty, ex_empty, ex_empty, ex_empty, ex_empty) \<and>
   calculate_land_cover_percentages (ex_empty, ex_empty, ex_empty, ex_empty, ex_empty) =
     [(''Built-up Area'', NaN), (''Water'', NaN), (''Forest'', NaN), (''Vegetation'', NaN),
      (''Barren Land'', NaN)]"
  by (simp add: ex_image_empty_def calculate_ndvi_def calculate_ndwi_def calculate_ndbi_def
      np_zeros_def classify_land_cover_def Let_def array_simps map_array_def zip_array_def
      ex_empty_def calculate_land_cover_percentages_def np_sum_def asize_def rdiv_def)

theorem band_deficient_all_barren_witness:
  "ishape ex_image3 = (1, 2, 3) \<and> (3::nat) < 4 \<and> (0::nat) < 1 * 2 \<and>
   calculate_ndvi ex_image3 = Inr (np_zeros (1, 2)) \<and>
   run_lulc_change_analysis ex_image3 ex_image5 =
     Inr \<lparr>res_image1 =
            [(''Built-up Area'', Fin 0), (''Water'', Fin 0), (''Forest'', Fin 0),
             (''Vegetation'', Fin 0), (''Barren Land'', Fin 100)],
          res_image2 =
            [(''Built-up Area'', Fin 0), (''Water'', Fin 50), (''Forest'', Fin 0),
             (''Vegetation'', Fin 50), (''Barren Land'', Fin 0)],
          res_change =
            [(''Built-up Area'', Fin 0), (''Water'', Fin 50), (''Forest'', Fin 0),
             (''Vegetation'', Fin 50), (''Barren Land'', Fin (- 100))],
          res_total_change_area = Fin 100\<rparr> \<and>
   (\<exists>m. classify_land_cover (np_zeros (1, 2)) (np_zeros (1, 2)) (np_zeros (1, 2)) = Inr m \<and>
      cells_of m 0 1 = (0, 0, 0, 0, 1) \<and>
      calculate_land_cover_percentages m =
        [(''Built-up Area'', Fin 0), (''Water'', Fin 0), (''Forest'', Fin 0),
         (''Vegetation'', Fin 0), (''Barren Land'', Fin 100)])"
proof -
  have s: "ishape ex_image3 = (1, 2, 3)"
    by (simp add: ex_image3_def)
  have b: "(3::nat) < 4" and n: "(0::nat) < 1 * 2"
    by simp_all
  have r: "run_lulc_change_analysis ex_image3 ex_image5 =
     Inr \<lparr>res_image1 = ex_perc2,
          res_image2 = ex_perc1,
          res_change = negated
            [(''Built-up Area'', Fin 0), (''Water'', Fin (- 50)), (''Forest'', Fin 0),
             (''Vegetation'', Fin (- 50)), (''Barren Land'', Fin 100)],
          res_total_change_area = Fin 100\<rparr>"
    using run_swap [OF run_example] by (simp add: ex_perc1_def ex_perc2_def)
  show ?thesis
    using band_deficient_all_barren [OF s b n] s r
    by (fastforce simp add: negated_def ex_perc1_def ex_perc2_def)
qed

end
